theory Spec2Isabelle
  imports Complex_Main
begin

section \<open>Common data: Python values, dictionaries, clocks\<close>

text \<open>
  Python floats (timestamps, coordinates, gains) are modelled as \<open>real\<close>: the model is
  the exact-arithmetic reading of the code.  Every call of \<open>time.time()\<close> is an explicit
  argument of the function that makes it, named after what the reading is used for.

  A Python \<open>dict\<close> is an association list with distinct keys in insertion order:
  \<open>d[k] = v\<close> overwrites in place or appends, \<open>del d[k]\<close> removes the entry.
\<close>

datatype json =
    JNull
  | JBool bool
  | JNum real
  | JStr string
  | JArr "json list"
  | JObj "(string \<times> json) list"

type_synonym 'v pydict = "(string \<times> 'v) list"

fun dict_set :: "('k \<times> 'v) list \<Rightarrow> 'k \<Rightarrow> 'v \<Rightarrow> ('k \<times> 'v) list" where
  "dict_set [] k v = [(k, v)]"
| "dict_set ((k', v') # d) k v =
     (if k' = k then (k, v) # d else (k', v') # dict_set d k v)"

definition dict_del :: "('k \<times> 'v) list \<Rightarrow> 'k \<Rightarrow> ('k \<times> 'v) list" where
  "dict_del d k = filter (\<lambda>kv. fst kv \<noteq> k) d"

definition dict_get :: "('k \<times> 'v) list \<Rightarrow> 'k \<Rightarrow> 'v option" where
  "dict_get d k = map_of d k"

text \<open>\<open>d.update(other)\<close> for a dict \<open>other\<close>: its items are stored in their order.\<close>

definition dict_update :: "('k \<times> 'v) list \<Rightarrow> ('k \<times> 'v) list \<Rightarrow> ('k \<times> 'v) list" where
  "dict_update d other = foldl (\<lambda>m kv. dict_set m (fst kv) (snd kv)) d other"

text \<open>\<open>params.get(k)\<close>: the stored value, or Python's \<open>None\<close> (here \<open>JNull\<close>).\<close>

definition params_get :: "json pydict \<Rightarrow> string \<Rightarrow> json" where
  "params_get ps k = (case dict_get ps k of None \<Rightarrow> JNull | Some v \<Rightarrow> v)"

section \<open>Mission state machine (vision/mission/mission\_controller.py)\<close>

datatype QRCommand =
    QR_KAMIKAZE
  | QR_ESCAPE
  | QR_LOCK
  | QR_MISSION_UPDATE
  | QR_STATUS_REQUEST

datatype MissionState =
    IDLE
  | SEARCHING
  | TRACKING
  | LOCKING
  | LOCKED
  | KAMIKAZE
  | ESCAPING
  | EMERGENCY

text \<open>
  The command record built by the QR processor.  \<open>'p\<close> is the type of the
  \<open>parameters\<close> entry: any JSON value when it leaves the QR processor, a dict where
  \<open>process_command\<close> reads it with \<open>.get\<close> and \<open>dict.update\<close>.
\<close>

record 'p command_info =
  cmd_type :: QRCommand
  timestamp :: real
  raw_data :: "json pydict"
  parameters :: 'p

record state_info =
  si_state :: MissionState
  si_timestamp :: real
  si_previous_state :: "MissionState option"

record mission_controller =
  current_state :: MissionState
  previous_state :: "MissionState option"
  state_change_time :: real
  mission_data :: "json pydict"
  state_history :: "state_info list"

definition init_mission_controller :: "real \<Rightarrow> mission_controller" where
  "init_mission_controller now =
     \<lparr> current_state = IDLE, previous_state = None, state_change_time = now,
       mission_data = [], state_history = [] \<rparr>"

text \<open>\<open>update_state\<close>: \<open>now\<close> is the reading of \<open>time.time()\<close> on line 39.\<close>

definition update_state :: "mission_controller \<Rightarrow> MissionState \<Rightarrow> real \<Rightarrow> mission_controller" where
  "update_state mc new_state now =
     (if new_state \<noteq> current_state mc then
        let info = \<lparr> si_state = new_state, si_timestamp = now,
                     si_previous_state = Some (current_state mc) \<rparr>;
            hist = state_history mc @ [info];
            hist' = (if length hist > 100 then tl hist else hist)
        in mc \<lparr> previous_state := Some (current_state mc),
                current_state := new_state,
                state_change_time := now,
                state_history := hist' \<rparr>
      else mc)"

text \<open>
  \<open>process_command\<close> returns the boolean result and the controller after the call.
  The \<open>parameters\<close> of the command are a dict (the \<open>Dict\<close> of the signatures in
  qr\_processor.py), so \<open>.get\<close> and \<open>update\<close> cannot raise.
\<close>

definition process_command ::
  "mission_controller \<Rightarrow> json pydict command_info \<Rightarrow> real \<Rightarrow> bool \<times> mission_controller" where
  "process_command mc command_info now =
     (let command_type = cmd_type command_info;
          ps = parameters command_info
      in if command_type = QR_KAMIKAZE then
           (if current_state mc \<in> set [LOCKED, TRACKING] then
              let mc1 = update_state mc KAMIKAZE now
              in (True, mc1 \<lparr> mission_data :=
                    dict_set (mission_data mc1) ''kamikaze_target'' (params_get ps ''target_id'') \<rparr>)
            else (False, mc))
         else if command_type = QR_ESCAPE then
           (if current_state mc \<noteq> EMERGENCY then
              let mc1 = update_state mc ESCAPING now
              in (True, mc1 \<lparr> mission_data :=
                    dict_set (mission_data mc1) ''escape_direction'' (params_get ps ''direction'') \<rparr>)
            else (False, mc))
         else if command_type = QR_LOCK then
           (if current_state mc = TRACKING then
              let mc1 = update_state mc LOCKING now
              in (True, mc1 \<lparr> mission_data :=
                    dict_set (mission_data mc1) ''lock_target'' (params_get ps ''target_id'') \<rparr>)
            else (False, mc))
         else if command_type = QR_MISSION_UPDATE then
           (True, mc \<lparr> mission_data := dict_update (mission_data mc) ps \<rparr>)
         else if command_type = QR_STATUS_REQUEST then
           (True, mc)
         else (False, mc))"

text \<open>
  The guard table of the specification (section 4.3), written from its words:
  KAMIKAZE is allowed from LOCKED and TRACKING, ESCAPE from any state except EMERGENCY,
  LOCK from TRACKING only, MISSION\_UPDATE and STATUS\_REQUEST from any state.
\<close>

fun spec_guard :: "QRCommand \<Rightarrow> MissionState \<Rightarrow> bool" where
  "spec_guard QR_KAMIKAZE s = (s = LOCKED \<or> s = TRACKING)"
| "spec_guard QR_ESCAPE s = (s \<noteq> EMERGENCY)"
| "spec_guard QR_LOCK s = (s = TRACKING)"
| "spec_guard QR_MISSION_UPDATE s = True"
| "spec_guard QR_STATUS_REQUEST s = True"

text \<open>A concrete LOCK command, used to run the model.\<close>

definition lock_command :: "json pydict command_info" where
  "lock_command = \<lparr> cmd_type = QR_LOCK, timestamp = 10, raw_data = [],
                    parameters = [(''target_id'', JNum 7)] \<rparr>"

section \<open>QR command processor (detection/qr/qr\_processor.py)\<close>

datatype py_error = TypeError

text \<open>\<open>QRCommand(value)\<close>: the member with that value; \<open>None\<close> is the \<open>ValueError\<close>.\<close>

definition QRCommand_of_value :: "json \<Rightarrow> QRCommand option" where
  "QRCommand_of_value v =
     (if v = JStr ''KAMIKAZE'' then Some QR_KAMIKAZE
      else if v = JStr ''ESCAPE'' then Some QR_ESCAPE
      else if v = JStr ''LOCK'' then Some QR_LOCK
      else if v = JStr ''MISSION_UPDATE'' then Some QR_MISSION_UPDATE
      else if v = JStr ''STATUS_REQUEST'' then Some QR_STATUS_REQUEST
      else None)"

fun QRCommand_value :: "QRCommand \<Rightarrow> string" where
  "QRCommand_value QR_KAMIKAZE = ''KAMIKAZE''"
| "QRCommand_value QR_ESCAPE = ''ESCAPE''"
| "QRCommand_value QR_LOCK = ''LOCK''"
| "QRCommand_value QR_MISSION_UPDATE = ''MISSION_UPDATE''"
| "QRCommand_value QR_STATUS_REQUEST = ''STATUS_REQUEST''"

text \<open>Python's \<open>p in s\<close> for two strings.\<close>

fun str_contains :: "string \<Rightarrow> string \<Rightarrow> bool" where
  "str_contains [] p = (p = [])"
| "str_contains (c # cs) p = (take (length p) (c # cs) = p \<or> str_contains cs p)"

record qr_processor =
  last_command :: "QRCommand option"
  last_command_time :: "real option"
  command_history :: "json command_info list"
  command_cooldown :: real

definition init_qr_processor :: qr_processor where
  "init_qr_processor =
     \<lparr> last_command = None, last_command_time = None, command_history = [],
       command_cooldown = 2 \<rparr>"

text \<open>Truth value of \<open>self.last_command_time\<close>: \<open>None\<close> and \<open>0.0\<close> are false.\<close>

definition time_truthy :: "real option \<Rightarrow> bool" where
  "time_truthy t = (case t of None \<Rightarrow> False | Some x \<Rightarrow> x \<noteq> 0)"

text \<open>
  The part of \<open>process_qr_data\<close> after \<open>data\<close> was found to be a JSON object.
  \<open>current_time\<close> is the reading of \<open>time.time()\<close>.
\<close>

definition process_qr_object ::
  "qr_processor \<Rightarrow> json pydict \<Rightarrow> real \<Rightarrow> json command_info option \<times> qr_processor" where
  "process_qr_object qr data current_time =
     (case dict_get data ''command'' of
        None \<Rightarrow> (None, qr)
      | Some v \<Rightarrow>
         (case QRCommand_of_value v of
            None \<Rightarrow> (None, qr)
          | Some command_type \<Rightarrow>
              if last_command qr = Some command_type
                 \<and> time_truthy (last_command_time qr)
                 \<and> current_time - the (last_command_time qr) < command_cooldown qr
              then (None, qr)
              else
                let info = \<lparr> cmd_type = command_type, timestamp = current_time,
                             raw_data = data,
                             parameters = (case dict_get data ''parameters'' of
                                             None \<Rightarrow> JObj [] | Some p \<Rightarrow> p) \<rparr>;
                    hist = command_history qr @ [info];
                    hist' = (if length hist > 50 then tl hist else hist)
                in (Some info,
                    qr \<lparr> last_command := Some command_type,
                         last_command_time := Some current_time,
                         command_history := hist' \<rparr>)))"

text \<open>
  \<open>process_qr_data\<close>.  The argument is the result of \<open>json.loads(qr_data)\<close>:
  \<open>None\<close> when it raises \<open>JSONDecodeError\<close> (caught: no command).  A JSON text that is
  not an object reaches \<open>'command' not in data\<close> and \<open>data['command']\<close> as a string, a
  list or a scalar; the \<open>TypeError\<close> these raise is not caught by the function.
\<close>

definition process_qr_data ::
  "qr_processor \<Rightarrow> json option \<Rightarrow> real \<Rightarrow> (py_error + json command_info option) \<times> qr_processor" where
  "process_qr_data qr loaded current_time =
     (case loaded of
        None \<Rightarrow> (Inr None, qr)
      | Some (JObj data) \<Rightarrow>
          (Inr (fst (process_qr_object qr data current_time)),
           snd (process_qr_object qr data current_time))
      | Some (JStr s) \<Rightarrow>
          if \<not> str_contains s ''command'' then (Inr None, qr) else (Inl TypeError, qr)
      | Some (JArr xs) \<Rightarrow>
          if JStr ''command'' \<notin> set xs then (Inr None, qr) else (Inl TypeError, qr)
      | Some _ \<Rightarrow> (Inl TypeError, qr))"

text \<open>\<open>QRProcessor.create_qr_command\<close>, up to \<open>json.dumps\<close>: the object that is encoded.\<close>

definition create_qr_command :: "QRCommand \<Rightarrow> json pydict option \<Rightarrow> json" where
  "create_qr_command command_type params =
     JObj [(''command'', JStr (QRCommand_value command_type)),
           (''parameters'', JObj (case params of None \<Rightarrow> [] | Some p \<Rightarrow> p))]"

text \<open>Concrete payloads and processor states, used to run the model.\<close>

definition kamikaze_payload :: json where
  "kamikaze_payload = create_qr_command QR_KAMIKAZE (Some [(''target_id'', JNum 3)])"

definition escape_payload :: json where
  "escape_payload = create_qr_command QR_ESCAPE (Some [(''direction'', JStr ''WEST'')])"

definition qr_after_kamikaze :: qr_processor where
  "qr_after_kamikaze = snd (process_qr_data init_qr_processor (Some kamikaze_payload) 100)"

definition qr_after_kamikaze_escape :: qr_processor where
  "qr_after_kamikaze_escape = snd (process_qr_data qr_after_kamikaze (Some escape_payload) (1005 / 10))"

definition qr_after_kamikaze_escape_kamikaze :: qr_processor where
  "qr_after_kamikaze_escape_kamikaze =
     snd (process_qr_data qr_after_kamikaze_escape (Some kamikaze_payload) 101)"

section \<open>Mission priority manager (vision/mission/mission\_types.py, mission\_manager.py)\<close>

datatype MissionPriority = CRITICAL | HIGH | MEDIUM | LOW

text \<open>The members' values, as \<open>auto()\<close> numbers them in declaration order.\<close>

fun priority_value :: "MissionPriority \<Rightarrow> int" where
  "priority_value CRITICAL = 1"
| "priority_value HIGH = 2"
| "priority_value MEDIUM = 3"
| "priority_value LOW = 4"

datatype MissionType =
    MT_SCAN
  | MT_TRACK
  | MT_LOCK
  | MT_KAMIKAZE
  | MT_ESCAPE
  | MT_RETURN_HOME

fun get_default_priority :: "MissionType \<Rightarrow> MissionPriority" where
  "get_default_priority MT_SCAN = LOW"
| "get_default_priority MT_TRACK = MEDIUM"
| "get_default_priority MT_LOCK = HIGH"
| "get_default_priority MT_KAMIKAZE = HIGH"
| "get_default_priority MT_ESCAPE = CRITICAL"
| "get_default_priority MT_RETURN_HOME = MEDIUM"

datatype MissionStatus = PENDING | ACTIVE | COMPLETED | FAILED | INTERRUPTED

record MissionData =
  mission_id :: string
  mission_type :: MissionType
  priority :: MissionPriority
  status :: MissionStatus
  start_time :: real
  completion_time :: "real option"
  target_id :: "string option"
  md_parameters :: "json pydict"

text \<open>\<open>MissionData.update_status\<close>; \<open>now\<close> is the clock reading of line 63.\<close>

definition update_status :: "MissionData \<Rightarrow> MissionStatus \<Rightarrow> real \<Rightarrow> MissionData" where
  "update_status m new_status now =
     (let m1 = m \<lparr> status := new_status \<rparr>
      in if new_status \<in> set [COMPLETED, FAILED, INTERRUPTED]
         then m1 \<lparr> completion_time := Some now \<rparr> else m1)"

text \<open>
  The manager holds references to mission objects: the same object is reachable from
  \<open>active_missions\<close>, from \<open>mission_history\<close> and as \<open>current_mission\<close>, and
  \<open>update_status\<close> mutates it in place.  The model keeps the objects in a store
  (\<open>objs\<close>, from references to objects; \<open>next_ref\<close> is the next fresh reference) and
  the three containers hold references.
\<close>

record mission_manager =
  objs :: "nat \<Rightarrow> MissionData"
  next_ref :: nat
  active_missions :: "(string \<times> nat) list"
  mission_history :: "nat list"
  current_mission :: "nat option"

definition blank_mission :: MissionData where
  "blank_mission =
     \<lparr> mission_id = [], mission_type = MT_SCAN, priority = LOW, status = PENDING,
       start_time = 0, completion_time = None, target_id = None, md_parameters = [] \<rparr>"

definition init_mission_manager :: mission_manager where
  "init_mission_manager =
     \<lparr> objs = (\<lambda>r. blank_mission), next_ref = 0, active_missions = [],
       mission_history = [], current_mission = None \<rparr>"

text \<open>
  \<open>create_mission\<close>: \<open>uuid\<close> is the string \<open>str(uuid.uuid4())\<close>, \<open>now\<close> the clock
  reading.  Returns the reference of the new mission and the manager.
\<close>

definition create_mission ::
  "mission_manager \<Rightarrow> MissionType \<Rightarrow> string option \<Rightarrow> MissionPriority option
     \<Rightarrow> json pydict option \<Rightarrow> string \<Rightarrow> real \<Rightarrow> nat \<times> mission_manager" where
  "create_mission mm mtype target prio params uuid now =
     (let p = (case prio of None \<Rightarrow> get_default_priority mtype | Some q \<Rightarrow> q);
          mission = \<lparr> mission_id = uuid, mission_type = mtype, priority = p,
                      status = PENDING, start_time = now, completion_time = None,
                      target_id = target,
                      md_parameters = (case params of None \<Rightarrow> [] | Some ps \<Rightarrow> ps) \<rparr>;
          r = next_ref mm
      in (r, mm \<lparr> objs := (objs mm)(r := mission), next_ref := Suc r,
                   active_missions := dict_set (active_missions mm) uuid r \<rparr>))"

definition update_mission_status ::
  "mission_manager \<Rightarrow> string \<Rightarrow> MissionStatus \<Rightarrow> real \<Rightarrow> mission_manager" where
  "update_mission_status mm mid new_status now =
     (case dict_get (active_missions mm) mid of
        None \<Rightarrow> mm
      | Some r \<Rightarrow>
          let mm1 = mm \<lparr> objs := (objs mm)(r := update_status (objs mm r) new_status now) \<rparr>
          in if new_status \<in> set [COMPLETED, FAILED] then
               mm1 \<lparr> mission_history := mission_history mm1 @ [r],
                     active_missions := dict_del (active_missions mm1) mid,
                     current_mission :=
                       (case current_mission mm1 of
                          None \<Rightarrow> None
                        | Some c \<Rightarrow> if mission_id (objs mm1 c) = mid then None else Some c) \<rparr>
             else mm1)"

text \<open>Python's \<open>max(xs, key=f)\<close> on a non-empty list: the first element of greatest key.\<close>

definition max_by :: "('a \<Rightarrow> int) \<Rightarrow> 'a \<Rightarrow> 'a list \<Rightarrow> 'a" where
  "max_by f x xs = fold (\<lambda>y best. if f y > f best then y else best) xs x"

definition get_highest_priority_mission :: "mission_manager \<Rightarrow> nat option" where
  "get_highest_priority_mission mm =
     (if active_missions mm = [] then None
      else case filter (\<lambda>r. status (objs mm r) = PENDING) (map snd (active_missions mm)) of
             [] \<Rightarrow> None
           | r # rs \<Rightarrow> Some (max_by (\<lambda>q. priority_value (priority (objs mm q))) r rs))"

definition interrupt_current_mission :: "mission_manager \<Rightarrow> real \<Rightarrow> mission_manager" where
  "interrupt_current_mission mm now =
     (case current_mission mm of
        None \<Rightarrow> mm
      | Some c \<Rightarrow>
          (update_mission_status mm (mission_id (objs mm c)) INTERRUPTED now)
            \<lparr> current_mission := None \<rparr>)"

text \<open>\<open>MissionManager.update\<close>: the current mission after the call, and the manager.\<close>

definition manager_update :: "mission_manager \<Rightarrow> real \<Rightarrow> nat option \<times> mission_manager" where
  "manager_update mm now =
     (case get_highest_priority_mission mm of
        None \<Rightarrow> (current_mission mm, mm)
      | Some h \<Rightarrow>
          (case current_mission mm of
             None \<Rightarrow>
               (Some h, mm \<lparr> objs := (objs mm)(h := update_status (objs mm h) ACTIVE now),
                             current_mission := Some h \<rparr>)
           | Some c \<Rightarrow>
               if priority_value (priority (objs mm h)) > priority_value (priority (objs mm c))
               then let mm1 = interrupt_current_mission mm now
                    in (Some h,
                        mm1 \<lparr> objs := (objs mm1)(h := update_status (objs mm1 h) ACTIVE now),
                              current_mission := Some h \<rparr>)
               else (Some c, mm)))"

text \<open>The count \<open>interrupted_missions\<close> of \<open>get_mission_stats\<close>.\<close>

definition interrupted_missions :: "mission_manager \<Rightarrow> nat" where
  "interrupted_missions mm =
     length (filter (\<lambda>r. status (objs mm r) = INTERRUPTED) (mission_history mm))"

text \<open>A manager with one SCAN mission, created at time 1 and made current at time 2.\<close>

definition manager_scan_current :: mission_manager where
  "manager_scan_current =
     snd (manager_update
            (snd (create_mission init_mission_manager MT_SCAN None None None ''m-1'' 1)) 2)"

section \<open>Target lock evaluator (vision/targeting/target\_lock.py)\<close>

text \<open>Python's \<open>int(x)\<close> on a float: truncation toward zero.\<close>

definition py_int :: "real \<Rightarrow> int" where
  "py_int x = (if 0 \<le> x then \<lfloor>x\<rfloor> else \<lceil>x\<rceil>)"

text \<open>The format \<open>{n:03d}\<close>: decimal digits, padded with zeros to three places.\<close>

fun decimal :: "nat \<Rightarrow> string" where
  "decimal n = (if n < 10 then [''0123456789'' ! n]
                else decimal (n div 10) @ [''0123456789'' ! (n mod 10)])"

declare decimal.simps [simp del]

definition fmt_03d :: "nat \<Rightarrow> string" where
  "fmt_03d n = replicate (3 - length (decimal n)) (CHR ''0'') @ decimal n"

record zone_rect =
  x1 :: int
  y1 :: int
  x2 :: int
  y2 :: int

record tracked_object =
  centroid :: "real \<times> real"
  bbox :: "real \<times> real \<times> real \<times> real"
  confidence :: real

record uav_info =
  uav_id :: string
  first_seen :: real
  total_tracked_frames :: nat
  total_lock_time :: real

record lock_system =
  frame_width :: int
  frame_height :: int
  required_lock_time :: real
  total_lock_window :: real
  lock_box_coverage :: real
  lock_tolerance :: real
  camera_view :: zone_rect
  target_hit_area :: zone_rect
  lock_zone :: zone_rect
  current_target_id :: "nat option"
  lock_start_time :: "real option"
  window_start_time :: "real option"
  is_locked :: bool
  lock_duration :: real
  lock_duration_elapsed :: real
  last_locked_target :: "nat option"
  server_time :: real
  lock_hysteresis :: int
  uav_counter :: nat
  tracked_uavs :: "(nat \<times> uav_info) list"

text \<open>
  The constructor with \<open>_setup_competition_zones\<close>.  The margins \<open>int(0.25 * w)\<close>,
  \<open>int(0.10 * h)\<close>, \<open>int(0.05 * w)\<close>, \<open>int(0.05 * h)\<close> are taken with the decimal
  constants as exact fractions.
\<close>

definition init_lock_system :: "int \<Rightarrow> int \<Rightarrow> real \<Rightarrow> real \<Rightarrow> real \<Rightarrow> lock_system" where
  "init_lock_system w h req window coverage =
     (let margin_x = py_int (25 / 100 * of_int w);
          margin_y = py_int (10 / 100 * of_int h);
          hit = \<lparr> x1 = margin_x, y1 = margin_y, x2 = w - margin_x, y2 = h - margin_y \<rparr>;
          lock_margin_x = py_int (5 / 100 * of_int w);
          lock_margin_y = py_int (5 / 100 * of_int h)
      in \<lparr> frame_width = w, frame_height = h, required_lock_time = req,
           total_lock_window = window, lock_box_coverage = coverage,
           lock_tolerance = 20 / 100,
           camera_view = \<lparr> x1 = 0, y1 = 0, x2 = w, y2 = h \<rparr>,
           target_hit_area = hit,
           lock_zone = \<lparr> x1 = x1 hit + lock_margin_x, y1 = y1 hit + lock_margin_y,
                         x2 = x2 hit - lock_margin_x, y2 = y2 hit - lock_margin_y \<rparr>,
           current_target_id = None, lock_start_time = None, window_start_time = None,
           is_locked = False, lock_duration = 0, lock_duration_elapsed = 0,
           last_locked_target = None, server_time = 0, lock_hysteresis = 0,
           uav_counter = 0, tracked_uavs = [] \<rparr>)"

text \<open>The default evaluator: 1280 by 720, five seconds, coverage 0.70.\<close>

definition default_lock_system :: lock_system where
  "default_lock_system = init_lock_system 1280 720 5 5 (70 / 100)"

definition is_point_in_lock_zone :: "lock_system \<Rightarrow> real \<times> real \<Rightarrow> bool" where
  "is_point_in_lock_zone s point =
     (case point of (x, y) \<Rightarrow>
        of_int (x1 (lock_zone s)) < x \<and> x < of_int (x2 (lock_zone s))
        \<and> of_int (y1 (lock_zone s)) < y \<and> y < of_int (y2 (lock_zone s)))"

definition is_target_in_area :: "lock_system \<Rightarrow> real \<times> real \<times> real \<times> real \<Rightarrow> bool" where
  "is_target_in_area s b =
     (case b of (bx1, by1, bx2, by2) \<Rightarrow>
        let area_x1 = of_int (x1 (target_hit_area s)) - of_int (frame_width s) * lock_tolerance s;
            area_y1 = of_int (y1 (target_hit_area s)) - of_int (frame_height s) * lock_tolerance s;
            area_x2 = of_int (x2 (target_hit_area s)) + of_int (frame_width s) * lock_tolerance s;
            area_y2 = of_int (y2 (target_hit_area s)) + of_int (frame_height s) * lock_tolerance s
        in \<not> (bx2 < area_x1 \<or> bx1 > area_x2 \<or> by2 < area_y1 \<or> by1 > area_y2))"

definition reset_lock :: "lock_system \<Rightarrow> lock_system" where
  "reset_lock s =
     s \<lparr> current_target_id := None, lock_start_time := None, window_start_time := None,
         is_locked := False, lock_duration := 0, lock_duration_elapsed := 0 \<rparr>"

record lock_status =
  ls_is_locked :: bool
  ls_target_id :: "nat option"
  ls_uav_id :: "string option"
  ls_lock_duration :: real
  ls_window_start_time :: "real option"
  ls_server_time :: real
  ls_lock_zone :: zone_rect
  ls_target_hit_area :: zone_rect
  ls_last_locked_target :: "nat option"
  ls_total_tracked_uavs :: nat

text \<open>
  \<open>_get_lock_status\<close>.  The test \<open>if self.current_target_id and ...\<close> takes the
  truth value of the id: \<open>None\<close> and \<open>0\<close> are false.
\<close>

definition get_lock_status :: "lock_system \<Rightarrow> lock_status" where
  "get_lock_status s =
     (let current_uav_id =
            (case current_target_id s of
               None \<Rightarrow> None
             | Some i \<Rightarrow>
                 if i \<noteq> 0 \<and> i \<in> set (map fst (tracked_uavs s))
                 then map_option uav_id (dict_get (tracked_uavs s) i)
                 else None)
      in \<lparr> ls_is_locked = is_locked s, ls_target_id = current_target_id s,
           ls_uav_id = current_uav_id, ls_lock_duration = lock_duration_elapsed s,
           ls_window_start_time = window_start_time s, ls_server_time = server_time s,
           ls_lock_zone = lock_zone s, ls_target_hit_area = target_hit_area s,
           ls_last_locked_target = last_locked_target s,
           ls_total_tracked_uavs = length (tracked_uavs s) \<rparr>)"

text \<open>
  The three readings of \<open>time.time()\<close> that one \<open>update\<close> can make: for
  \<open>first_seen\<close> (line 185), for \<open>lock_start_time\<close> (line 215) and for
  \<open>lock_duration\<close> (line 218).
\<close>

record lock_clock =
  t_first_seen :: real
  t_lock_start :: real
  t_duration :: real

text \<open>Lines 181 to 191: the identity of the track, and the frame count of its entry.\<close>

definition assign_uav :: "lock_system \<Rightarrow> nat \<Rightarrow> real \<Rightarrow> lock_system" where
  "assign_uav s obj_id t_seen =
     (let s1 = (if obj_id \<notin> set (map fst (tracked_uavs s)) then
                  s \<lparr> uav_counter := uav_counter s + 1,
                      tracked_uavs := dict_set (tracked_uavs s) obj_id
                        \<lparr> uav_id = ''UAV_'' @ fmt_03d (uav_counter s + 1),
                          first_seen = t_seen, total_tracked_frames = 0,
                          total_lock_time = 0 \<rparr> \<rparr>
                else s)
      in s1 \<lparr> tracked_uavs :=
                map (\<lambda>kv. if fst kv = obj_id
                           then (fst kv, (snd kv) \<lparr> total_tracked_frames :=
                                            total_tracked_frames (snd kv) + 1 \<rparr>)
                           else kv) (tracked_uavs s1) \<rparr>)"

text \<open>Lines 211 to 227: the hysteresis counter and the lock timer.\<close>

definition update_lock_status :: "lock_system \<Rightarrow> nat \<Rightarrow> bool \<Rightarrow> lock_clock \<Rightarrow> lock_system" where
  "update_lock_status s obj_id in_lock_zone clk =
     (if in_lock_zone then
        let s1 = s \<lparr> lock_hysteresis := min (lock_hysteresis s + 1) 5 \<rparr>
        in if lock_hysteresis s1 \<ge> 2 then
             let s2 = (if \<not> time_truthy (lock_start_time s1)
                       then s1 \<lparr> lock_start_time := Some (t_lock_start clk),
                                 current_target_id := Some obj_id \<rparr>
                       else s1);
                 d = t_duration clk - the (lock_start_time s2);
                 s3 = s2 \<lparr> lock_duration := d, is_locked := (d \<ge> required_lock_time s2),
                           lock_duration_elapsed := d \<rparr>
             in if is_locked s3 then
                  s3 \<lparr> tracked_uavs :=
                         map (\<lambda>kv. if fst kv = obj_id
                                    then (fst kv, (snd kv) \<lparr> total_lock_time := lock_duration s3 \<rparr>)
                                    else kv) (tracked_uavs s3) \<rparr>
                else s3
           else s1
      else
        let s1 = s \<lparr> lock_hysteresis := max (lock_hysteresis s - 1) (- 3) \<rparr>
        in if lock_hysteresis s1 \<le> - 3 then reset_lock s1 else s1)"

text \<open>
  \<open>update(tracked_objects, frame)\<close>.  The frame is only drawn on (rectangles and
  labels on a copy of it) and is left out; \<open>is_target_in_area\<close> only selects a colour.
  The result is the lock status and the evaluator after the call.
\<close>

definition lock_update ::
  "lock_system \<Rightarrow> (nat \<times> tracked_object) list \<Rightarrow> lock_clock \<Rightarrow> lock_status \<times> lock_system" where
  "lock_update s tracked_objects clk =
     (case tracked_objects of
        [] \<Rightarrow>
          let s1 = s \<lparr> lock_hysteresis := max (lock_hysteresis s - 1) (- 3) \<rparr>;
              s2 = (if lock_hysteresis s1 \<le> - 3 then reset_lock s1 else s1)
          in (get_lock_status s2, s2)
      | (obj_id, obj) # rest \<Rightarrow>
          let s1 = assign_uav s obj_id (t_first_seen clk);
              in_lock_zone = is_point_in_lock_zone s1 (centroid obj);
              s2 = update_lock_status s1 obj_id in_lock_zone clk
          in (get_lock_status s2, s2))"

text \<open>A sequence of updates, one frame after the other.\<close>

definition lock_run ::
  "lock_system \<Rightarrow> ((nat \<times> tracked_object) list \<times> lock_clock) list \<Rightarrow> lock_system" where
  "lock_run s frames = foldl (\<lambda>st f. snd (lock_update st (fst f) (snd f))) s frames"

text \<open>A frame whose first tracked object has its centroid inside the lock zone.\<close>

definition frame_in_lock_zone ::
  "lock_system \<Rightarrow> (nat \<times> tracked_object) list \<times> lock_clock \<Rightarrow> bool" where
  "frame_in_lock_zone s f =
     (case fst f of [] \<Rightarrow> False
      | (obj_id, obj) # rest \<Rightarrow> is_point_in_lock_zone s (centroid obj))"

text \<open>Concrete frames, used to run the model: one object at the centre of the frame.\<close>

definition centre_object :: tracked_object where
  "centre_object = \<lparr> centroid = (640, 360), bbox = (600, 320, 680, 400), confidence = 9 / 10 \<rparr>"

definition corner_object :: tracked_object where
  "corner_object = \<lparr> centroid = (50, 50), bbox = (10, 10, 90, 90), confidence = 9 / 10 \<rparr>"

definition frame_at ::
  "nat \<Rightarrow> tracked_object \<Rightarrow> real \<Rightarrow> (nat \<times> tracked_object) list \<times> lock_clock" where
  "frame_at i obj t = ([(i, obj)], \<lparr> t_first_seen = t, t_lock_start = t, t_duration = t \<rparr>)"

definition empty_frame_at :: "real \<Rightarrow> (nat \<times> tracked_object) list \<times> lock_clock" where
  "empty_frame_at t = ([], \<lparr> t_first_seen = t, t_lock_start = t, t_duration = t \<rparr>)"

definition timing_frames :: "((nat \<times> tracked_object) list \<times> lock_clock) list" where
  "timing_frames =
     [frame_at 0 centre_object 1000, frame_at 0 centre_object 1001,
      frame_at 0 centre_object 1005, frame_at 0 centre_object 1006]"

text \<open>
  An evaluator that has started its lock timer on track \<open>i\<close> (two in-zone frames),
  and the same evaluator four empty frames later, one step above the floor.
\<close>

definition timer_started :: "nat \<Rightarrow> lock_system" where
  "timer_started i =
     lock_run default_lock_system [frame_at i centre_object 1000, frame_at i centre_object 1001]"

definition above_floor :: lock_system where
  "above_floor =
     lock_run (timer_started 0)
       [empty_frame_at 1002, empty_frame_at 1003, empty_frame_at 1004, empty_frame_at 1005]"

definition uav_001 :: uav_info where
  "uav_001 = \<lparr> uav_id = ''UAV_001'', first_seen = 1000, total_tracked_frames = 2,
               total_lock_time = 0 \<rparr>"

section \<open>PID controller (vision/targeting/camera\_controller.py)\<close>

record pid_controller =
  kp :: real
  ki :: real
  kd :: real
  min_output :: real
  max_output :: real
  previous_error :: real
  integral :: real
  last_time :: "real option"

definition init_pid :: "real \<Rightarrow> real \<Rightarrow> real \<Rightarrow> real \<Rightarrow> real \<Rightarrow> pid_controller" where
  "init_pid p i d lo hi =
     \<lparr> kp = p, ki = i, kd = d, min_output = lo, max_output = hi,
       previous_error = 0, integral = 0, last_time = None \<rparr>"

text \<open>
  \<open>compute(setpoint, process_variable, current_time=None)\<close>: the output and the
  controller after the call.  \<open>clock\<close> is the reading of \<open>time.time()\<close>, used when
  no \<open>current_time\<close> is passed.
\<close>

definition compute ::
  "pid_controller \<Rightarrow> real \<Rightarrow> real \<Rightarrow> real option \<Rightarrow> real \<Rightarrow> real \<times> pid_controller" where
  "compute c setpoint process_variable current_time clock =
     (let now = (case current_time of None \<Rightarrow> clock | Some t \<Rightarrow> t)
      in case last_time c of
           None \<Rightarrow>
             (0, c \<lparr> last_time := Some now,
                     previous_error := setpoint - process_variable \<rparr>)
         | Some t_last \<Rightarrow>
             let dt = now - t_last
             in if dt \<le> 0 then (0, c)
                else
                  let err = setpoint - process_variable;
                      integ = integral c + err * dt;
                      derivative = (if dt > 0 then (err - previous_error c) / dt else 0);
                      output = kp c * err + ki c * integ + kd c * derivative;
                      output' = max (min_output c) (min (max_output c) output)
                  in (output', c \<lparr> integral := integ, previous_error := err,
                                     last_time := Some now \<rparr>))"

definition pid_reset :: "pid_controller \<Rightarrow> pid_controller" where
  "pid_reset c = c \<lparr> previous_error := 0, integral := 0, last_time := None \<rparr>"

text \<open>A controller that has run two steps, used to run the model.\<close>

definition pan_pid :: pid_controller where
  "pan_pid = snd (compute (snd (compute (init_pid 2 1 (1 / 2) (- 30) 30) 10 4 (Some 100) 0))
                    10 6 (Some 101) 0)"

section \<open>No-fly zones (vision/safety/no\_fly\_zone\_controller.py)\<close>

type_synonym vec3 = "real \<times> real \<times> real"

datatype ZoneType = AIR_DEFENSE | SIGNAL_JAMMING

record NoFlyZone =
  zone_id :: string
  zone_type :: ZoneType
  center :: vec3
  radius :: real
  activation_time :: real
  is_active :: bool
  total_violation_time :: real
  last_violation_check :: "real option"

record nfz_controller =
  zones :: "(string \<times> NoFlyZone) list"
  penalty_points_per_second :: real
  max_violation_time :: real
  safety_margin :: real
  total_penalty_points :: real
  current_violations :: "string set"

definition init_nfz_controller :: "real \<Rightarrow> real \<Rightarrow> real \<Rightarrow> nfz_controller" where
  "init_nfz_controller rate max_time margin =
     \<lparr> zones = [], penalty_points_per_second = rate, max_violation_time = max_time,
       safety_margin = margin, total_penalty_points = 0, current_violations = {} \<rparr>"

text \<open>\<open>add_zone\<close>: a new zone is not active.  \<open>now\<close> is the clock reading.\<close>

definition add_zone ::
  "nfz_controller \<Rightarrow> string \<Rightarrow> ZoneType \<Rightarrow> vec3 \<Rightarrow> real \<Rightarrow> real \<Rightarrow> nfz_controller" where
  "add_zone c zid ztype ctr r now =
     c \<lparr> zones := dict_set (zones c) zid
            \<lparr> zone_id = zid, zone_type = ztype, center = ctr, radius = r,
              activation_time = now, is_active = False, total_violation_time = 0,
              last_violation_check = None \<rparr> \<rparr>"

definition activate_zone :: "nfz_controller \<Rightarrow> string \<Rightarrow> real \<Rightarrow> nfz_controller" where
  "activate_zone c zid now =
     c \<lparr> zones := map (\<lambda>kv. if fst kv = zid
                              then (fst kv, (snd kv) \<lparr> is_active := True, activation_time := now \<rparr>)
                              else kv) (zones c) \<rparr>"

definition deactivate_zone :: "nfz_controller \<Rightarrow> string \<Rightarrow> nfz_controller" where
  "deactivate_zone c zid =
     c \<lparr> zones := map (\<lambda>kv. if fst kv = zid
                              then (fst kv, (snd kv) \<lparr> is_active := False \<rparr>)
                              else kv) (zones c) \<rparr>"

text \<open>The distance in the plane between a point and the centre of a zone.\<close>

definition planar_distance :: "vec3 \<Rightarrow> NoFlyZone \<Rightarrow> real" where
  "planar_distance point z =
     (case point of (px, py, pz) \<Rightarrow> case center z of (cx, cy, cz) \<Rightarrow>
        sqrt ((px - cx)\<^sup>2 + (py - cy)\<^sup>2))"

definition is_point_in_zone :: "vec3 \<Rightarrow> NoFlyZone \<Rightarrow> bool" where
  "is_point_in_zone point z = (planar_distance point z \<le> radius z)"

text \<open>
  The loop of \<open>update\<close> over \<open>self.zones.items()\<close> (lines 197 to 221).  It returns
  the zones after the loop, the total penalty and the identifiers collected in
  \<open>new_violations\<close>.
\<close>

fun violation_loop ::
  "real \<Rightarrow> vec3 \<Rightarrow> real \<Rightarrow> (string \<times> NoFlyZone) list \<Rightarrow> real \<Rightarrow> string set
     \<Rightarrow> (string \<times> NoFlyZone) list \<times> real \<times> string set" where
  "violation_loop rate pos now [] pen viol = ([], pen, viol)"
| "violation_loop rate pos now ((zid, z) # rest) pen viol =
     (if \<not> is_active z then
        (case violation_loop rate pos now rest pen viol of
           (zs, r) \<Rightarrow> ((zid, z) # zs, r))
      else if is_point_in_zone pos z then
        (case last_violation_check z of
           None \<Rightarrow>
             (case violation_loop rate pos now rest pen (insert zid viol) of
                (zs, r) \<Rightarrow> ((zid, z \<lparr> last_violation_check := Some now \<rparr>) # zs, r))
         | Some t_check \<Rightarrow>
             let time_delta = now - t_check
             in (case violation_loop rate pos now rest (pen + time_delta * rate)
                        (insert zid viol) of
                   (zs, r) \<Rightarrow>
                     ((zid, z \<lparr> total_violation_time := total_violation_time z + time_delta,
                                 last_violation_check := Some now \<rparr>) # zs, r)))
      else
        (case violation_loop rate pos now rest pen viol of
           (zs, r) \<Rightarrow> ((zid, z \<lparr> last_violation_check := None \<rparr>) # zs, r)))"

text \<open>Python's \<open>max(xs, default=d)\<close>.\<close>

definition max_default :: "real \<Rightarrow> real list \<Rightarrow> real" where
  "max_default d xs = (case xs of [] \<Rightarrow> d | x # rest \<Rightarrow> fold max rest x)"

record nfz_report =
  in_violation :: bool
  violated_zones :: "string set"
  rep_total_penalty_points :: real
  rep_max_violation_time :: real
  emergency_landing_required :: bool

text \<open>\<open>update(current_pos)\<close>; \<open>current_time\<close> is the clock reading of line 193.\<close>

definition nfz_update :: "nfz_controller \<Rightarrow> vec3 \<Rightarrow> real \<Rightarrow> nfz_report \<times> nfz_controller" where
  "nfz_update c current_pos current_time =
     (case violation_loop (penalty_points_per_second c) current_pos current_time (zones c)
             (total_penalty_points c) {} of
        (zs, pen, new_violations) \<Rightarrow>
          let c' = c \<lparr> zones := zs, total_penalty_points := pen,
                       current_violations := new_violations \<rparr>;
              max_violation = max_default 0 (map (\<lambda>kv. total_violation_time (snd kv)) zs)
          in (\<lparr> in_violation = (new_violations \<noteq> {}),
                violated_zones = new_violations,
                rep_total_penalty_points = pen,
                rep_max_violation_time = max_violation,
                emergency_landing_required = (max_violation \<ge> max_violation_time c') \<rparr>,
              c'))"

text \<open>
  What one \<open>update\<close> does to a single zone, and the time it adds to the zone's
  total: the body of the loop, read off for one zone.
\<close>

definition checked_zone :: "vec3 \<Rightarrow> real \<Rightarrow> NoFlyZone \<Rightarrow> NoFlyZone" where
  "checked_zone pos now z =
     (if \<not> is_active z then z
      else if is_point_in_zone pos z then
        (case last_violation_check z of
           None \<Rightarrow> z \<lparr> last_violation_check := Some now \<rparr>
         | Some t_check \<Rightarrow>
             z \<lparr> total_violation_time := total_violation_time z + (now - t_check),
                 last_violation_check := Some now \<rparr>)
      else z \<lparr> last_violation_check := None \<rparr>)"

definition accrued_time :: "vec3 \<Rightarrow> real \<Rightarrow> NoFlyZone \<Rightarrow> real" where
  "accrued_time pos now z =
     (if is_active z \<and> is_point_in_zone pos z
      then (case last_violation_check z of None \<Rightarrow> 0 | Some t_check \<Rightarrow> now - t_check)
      else 0)"

text \<open>
  Concrete controllers and positions, used to run the model: one zone of radius 50
  at the origin, first as added (not active), then activated.
\<close>

definition nfz_added :: nfz_controller where
  "nfz_added = add_zone (init_nfz_controller 5 30 3) ''Z1'' AIR_DEFENSE (0, 0, 0) 50 900"

definition nfz_activated :: nfz_controller where
  "nfz_activated = activate_zone nfz_added ''Z1'' 950"

definition zone_Z1 :: NoFlyZone where
  "zone_Z1 = \<lparr> zone_id = ''Z1'', zone_type = AIR_DEFENSE, center = (0, 0, 0), radius = 50,
               activation_time = 950, is_active = True, total_violation_time = 0,
               last_violation_check = None \<rparr>"

definition pos_inside :: vec3 where
  "pos_inside = (40, 0, 10)"

definition pos_outside :: vec3 where
  "pos_outside = (60, 0, 10)"

text \<open>Controllers without any zone: the default one, and one whose time limit is 0.\<close>

definition nfz_no_zone :: nfz_controller where
  "nfz_no_zone = init_nfz_controller 5 30 3"

definition nfz_no_zone_no_limit :: nfz_controller where
  "nfz_no_zone_no_limit = init_nfz_controller 5 0 3"

section \<open>Maneuver generators: the vector arithmetic\<close>

text \<open>
  Three-component numpy arrays are triples of reals.  A numpy division by zero does
  not raise: it yields \<open>nan\<close> or \<open>inf\<close> components.  Division is therefore
  modelled as a partial operation, \<open>None\<close> standing for a result that is not a
  finite vector, and every function that divides returns an option.
\<close>

definition vzero :: vec3 where
  "vzero = (0, 0, 0)"

definition vsub :: "vec3 \<Rightarrow> vec3 \<Rightarrow> vec3" where
  "vsub a b = (case a of (ax, ay, az) \<Rightarrow> case b of (bx, by, bz) \<Rightarrow>
                 (ax - bx, ay - by, az - bz))"

definition vadd :: "vec3 \<Rightarrow> vec3 \<Rightarrow> vec3" where
  "vadd a b = (case a of (ax, ay, az) \<Rightarrow> case b of (bx, by, bz) \<Rightarrow>
                 (ax + bx, ay + by, az + bz))"

definition vscale :: "real \<Rightarrow> vec3 \<Rightarrow> vec3" where
  "vscale k a = (case a of (ax, ay, az) \<Rightarrow> (k * ax, k * ay, k * az))"

definition vnorm :: "vec3 \<Rightarrow> real" where
  "vnorm a = (case a of (ax, ay, az) \<Rightarrow> sqrt (ax\<^sup>2 + ay\<^sup>2 + az\<^sup>2))"

definition vdiv :: "vec3 \<Rightarrow> real \<Rightarrow> vec3 option" where
  "vdiv a d = (if d = 0 then None
               else Some (case a of (ax, ay, az) \<Rightarrow> (ax / d, ay / d, az / d)))"

definition sdiv :: "real \<Rightarrow> real \<Rightarrow> real option" where
  "sdiv a d = (if d = 0 then None else Some (a / d))"

text \<open>\<open>v[2] = c\<close>.\<close>

definition set_z :: "vec3 \<Rightarrow> real \<Rightarrow> vec3" where
  "set_z a c = (case a of (ax, ay, az) \<Rightarrow> (ax, ay, c))"

definition vz :: "vec3 \<Rightarrow> real" where
  "vz a = (case a of (ax, ay, az) \<Rightarrow> az)"

text \<open>\<open>np.linalg.norm(v[:2])\<close>.\<close>

definition vnorm2 :: "vec3 \<Rightarrow> real" where
  "vnorm2 a = (case a of (ax, ay, az) \<Rightarrow> sqrt (ax\<^sup>2 + ay\<^sup>2))"

text \<open>\<open>np.any(v)\<close> on a finite vector.\<close>

definition vany :: "vec3 \<Rightarrow> bool" where
  "vany a = (a \<noteq> vzero)"

section \<open>Escape maneuver (vision/mission/escape\_controller.py)\<close>

text \<open>
  The fields that \<open>calculate_escape_vector\<close> reads and writes.  \<open>last_perp\<close> is an
  attribute that does not exist until the first evasive maneuver sets it.
\<close>

record escape_controller =
  esc_min_altitude :: real
  esc_max_altitude :: real
  escape_speed :: real
  safe_distance :: real
  last_perp :: "int option"

definition init_escape_controller :: "real \<Rightarrow> real \<Rightarrow> real \<Rightarrow> real \<Rightarrow> escape_controller" where
  "init_escape_controller lo hi speed safe =
     \<lparr> esc_min_altitude = lo, esc_max_altitude = hi, escape_speed = speed,
       safe_distance = safe, last_perp = None \<rparr>"

text \<open>
  \<open>calculate_escape_vector\<close>.  \<open>rnd_resample\<close> and \<open>rnd_sign\<close> are the two draws of
  \<open>np.random.random()\<close> on lines 91 and 92, \<open>now\<close> is the clock reading of line 104.
\<close>

definition calculate_escape_vector ::
  "escape_controller \<Rightarrow> vec3 \<Rightarrow> vec3 \<Rightarrow> real \<Rightarrow> real \<Rightarrow> real
     \<Rightarrow> vec3 option \<times> escape_controller" where
  "calculate_escape_vector c our_position enemy_position rnd_resample rnd_sign now =
     (let direction = vsub our_position enemy_position;
          distance = vnorm direction
      in if distance > 0 then
           (case vdiv direction distance of
              None \<Rightarrow> (None, c)
            | Some d \<Rightarrow>
                let perp = (case d of (dx, dy, dz) \<Rightarrow> (- dy, dx, 0));
                    c' = (if last_perp c = None \<or> rnd_resample < 1 / 10
                          then c \<lparr> last_perp := Some (if rnd_sign < 1 / 2 then 1 else - 1) \<rparr>
                          else c);
                    blended = vadd (vscale (6 / 10) d)
                                (vscale (4 / 10) (vscale (of_int (the (last_perp c'))) perp));
                    with_z = (if vz our_position < esc_min_altitude c then set_z blended (4 / 10)
                              else if vz our_position > esc_max_altitude c
                                   then set_z blended (- (4 / 10))
                              else set_z blended (2 / 10 * sin (now * 2)))
                in (map_option (vscale (escape_speed c * (15 / 10)))
                      (vdiv with_z (vnorm with_z)), c'))
         else (Some vzero, c))"

section \<open>Kamikaze dive (vision/mission/kamikaze\_controller.py)\<close>

record kamikaze_controller =
  kam_min_altitude :: real
  dive_angle :: real
  approach_speed :: real
  qr_size :: real

text \<open>\<open>calculate_dive_path\<close>; \<open>np.radians\<close> is the factor \<open>pi / 180\<close>.\<close>

definition calculate_dive_path :: "kamikaze_controller \<Rightarrow> vec3 \<Rightarrow> vec3 \<Rightarrow> vec3 option" where
  "calculate_dive_path c our_position target_position =
     (let direction = vsub target_position our_position;
          distance = vnorm direction
      in if distance > 0 then
           (case vdiv direction distance of
              None \<Rightarrow> None
            | Some d \<Rightarrow>
                let angle = dive_angle c * pi / 180;
                    movement_vector = (case d of (dx, dy, dz) \<Rightarrow> (dx, dy, - sin angle))
                in vdiv movement_vector (vnorm movement_vector))
         else Some vzero)"

section \<open>No-fly-zone avoidance (calculate\_avoidance\_vector)\<close>

text \<open>
  The loop over the zones (lines 130 to 158): the accumulated repulsion, the total
  influence and the violated zone identifiers.  The accumulators are options, since
  the body divides twice.
\<close>

fun repulsion_loop ::
  "real \<Rightarrow> vec3 \<Rightarrow> (string \<times> NoFlyZone) list \<Rightarrow> vec3 option \<Rightarrow> real option \<Rightarrow> string list
     \<Rightarrow> vec3 option \<times> real option \<times> string list" where
  "repulsion_loop margin pos [] av infl viol = (av, infl, viol)"
| "repulsion_loop margin pos ((zid, z) # rest) av infl viol =
     (if \<not> is_active z then repulsion_loop margin pos rest av infl viol
      else
        let to_center = set_z (vsub (center z) pos) 0;
            distance = vnorm2 to_center;
            extended_range = radius z + margin
        in if distance \<le> extended_range then
             let direction = (if distance > 0
                              then map_option (\<lambda>d. set_z d 0)
                                     (vdiv (vscale (- 1) to_center) (vnorm to_center))
                              else None);
                 strength = (if distance > 0
                             then map_option (\<lambda>q. 1 - q) (sdiv distance extended_range)
                             else None);
                 av' = (if distance > 0
                        then (case (av, direction, strength) of
                                (Some a, Some d, Some s) \<Rightarrow> Some (vadd a (vscale s d))
                              | _ \<Rightarrow> None)
                        else av);
                 infl' = (if distance > 0
                          then (case (infl, strength) of
                                  (Some i, Some s) \<Rightarrow> Some (i + s)
                                | _ \<Rightarrow> None)
                          else infl);
                 viol' = (if distance \<le> radius z then viol @ [zid] else viol)
             in repulsion_loop margin pos rest av' infl' viol'
           else repulsion_loop margin pos rest av infl viol)"

text \<open>
  \<open>calculate_avoidance_vector\<close>: the avoidance vector (\<open>None\<close> when a division by
  zero made it non-finite) and the violated zones.  \<open>current_vel\<close> is not used by
  the code.
\<close>

definition calculate_avoidance_vector ::
  "nfz_controller \<Rightarrow> vec3 \<Rightarrow> vec3 \<Rightarrow> vec3 option \<Rightarrow> vec3 option \<times> string list" where
  "calculate_avoidance_vector c current_pos current_vel target_pos =
     (case repulsion_loop (safety_margin c) current_pos (zones c) (Some vzero) (Some 0) [] of
        (Some acc, Some total_influence, violated) \<Rightarrow>
          let av1 = (if total_influence > 0 then vdiv acc total_influence else Some acc);
              av2 = (case av1 of
                       None \<Rightarrow> None
                     | Some a \<Rightarrow>
                         (case target_pos of
                            None \<Rightarrow> Some a
                          | Some tp \<Rightarrow>
                              if vany a then
                                let to_target = set_z (vsub tp current_pos) 0;
                                    distance_to_target = vnorm2 to_target
                                in if distance_to_target > 0 then
                                     map_option
                                       (\<lambda>td. vadd (vscale (1 / 2) a) (vscale (1 / 2) td))
                                       (vdiv to_target (vnorm to_target))
                                   else Some a
                              else Some a));
              av3 = (case av2 of
                       None \<Rightarrow> None
                     | Some a \<Rightarrow> if vnorm a > 0 then vdiv a (vnorm a) else Some a)
          in (av3, violated)
      | (_, _, violated) \<Rightarrow> (None, violated))"

text \<open>The repulsion accumulated by the loop, before any normalisation.\<close>

definition accumulated_repulsion :: "nfz_controller \<Rightarrow> vec3 \<Rightarrow> vec3 option" where
  "accumulated_repulsion c pos =
     fst (repulsion_loop (safety_margin c) pos (zones c) (Some vzero) (Some 0) [])"

text \<open>Concrete controllers, used to run the model.\<close>

definition default_escape_controller :: escape_controller where
  "default_escape_controller = init_escape_controller 50 100 2 30"

definition default_kamikaze_controller :: kamikaze_controller where
  "default_kamikaze_controller =
     \<lparr> kam_min_altitude = 20, dive_angle = 45, approach_speed = 1, qr_size = 25 / 10 \<rparr>"

section \<open>Multi-object tracker (detection/tracking/kalman\_tracker.py)\<close>

text \<open>
  The Kalman filter is OpenCV's \<open>cv2.KalmanFilter\<close>.  The tracker is modelled over
  any type \<open>'kf\<close> of filter states with the two operations it uses here: the filter
  that \<open>_create_kalman_filter\<close> returns, and \<open>predict\<close>, which returns the predicted
  position and the filter after the prediction.
\<close>

record 'kf kalman_ops =
  create_kalman_filter :: 'kf
  kf_predict :: "'kf \<Rightarrow> (real \<times> real) \<times> 'kf"

record detection =
  det_bbox :: "real \<times> real \<times> real \<times> real"
  det_confidence :: real

record 'kf kalman_tracker =
  next_object_id :: nat
  objects :: "(nat \<times> ((real \<times> real) \<times> 'kf)) list"
  disappeared :: "(nat \<times> nat) list"
  max_disappeared :: nat
  max_distance :: real
  min_confidence :: real

definition init_tracker :: "nat \<Rightarrow> real \<Rightarrow> 'kf kalman_tracker" where
  "init_tracker max_dis max_dist =
     \<lparr> next_object_id = 0, objects = [], disappeared = [], max_disappeared = max_dis,
       max_distance = max_dist, min_confidence = 1 / 10 \<rparr>"

definition register :: "'kf kalman_ops \<Rightarrow> 'kf kalman_tracker \<Rightarrow> real \<times> real \<Rightarrow> 'kf kalman_tracker" where
  "register K s c =
     s \<lparr> objects := dict_set (objects s) (next_object_id s) (c, create_kalman_filter K),
         disappeared := dict_set (disappeared s) (next_object_id s) 0,
         next_object_id := next_object_id s + 1 \<rparr>"

text \<open>
  \<open>deregister\<close>.  Both dicts always hold the same keys (\<open>register\<close> and
  \<open>deregister\<close> are their only writers), so the two \<open>del\<close> find their key.
\<close>

definition deregister :: "'kf kalman_tracker \<Rightarrow> nat \<Rightarrow> 'kf kalman_tracker" where
  "deregister s object_id =
     s \<lparr> objects := dict_del (objects s) object_id,
         disappeared := dict_del (disappeared s) object_id \<rparr>"

text \<open>The detection record built on lines 79 to 87, with the centroid of the box.\<close>

definition detection_entry :: "detection \<Rightarrow> tracked_object" where
  "detection_entry det =
     (case det_bbox det of (b0, b1, b2, b3) \<Rightarrow>
        \<lparr> centroid = ((b0 + b2) / 2, (b1 + b3) / 2), bbox = det_bbox det,
          confidence = det_confidence det \<rparr>)"

text \<open>Lines 91 to 94: every track ages by one frame; a track that is too old goes.\<close>

fun mark_disappeared :: "'kf kalman_tracker \<Rightarrow> nat list \<Rightarrow> 'kf kalman_tracker" where
  "mark_disappeared s [] = s"
| "mark_disappeared s (object_id # ids) =
     (let n = (case dict_get (disappeared s) object_id of None \<Rightarrow> 0 | Some k \<Rightarrow> k) + 1;
          s1 = s \<lparr> disappeared := dict_set (disappeared s) object_id n \<rparr>
      in mark_disappeared
           (if n > max_disappeared s1 then deregister s1 object_id else s1) ids)"

text \<open>
  Lines 97 to 105: the remaining tracks are reported at their predicted positions.
  \<open>predict\<close> advances the filter stored with the track; the stored centroid stays.
\<close>

fun predict_all ::
  "'kf kalman_ops \<Rightarrow> (nat \<times> ((real \<times> real) \<times> 'kf)) list
     \<Rightarrow> (nat \<times> ((real \<times> real) \<times> 'kf)) list \<times> (nat \<times> tracked_object) list" where
  "predict_all K [] = ([], [])"
| "predict_all K ((obj_id, (c, kf)) # rest) =
     (case kf_predict K kf of
        (predicted, kf') \<Rightarrow>
          (case predict_all K rest of
             (objs', tracked) \<Rightarrow>
               ((obj_id, (c, kf')) # objs',
                (obj_id, \<lparr> centroid = predicted,
                           bbox = (fst predicted - 50, snd predicted - 50,
                                   fst predicted + 50, snd predicted + 50),
                           confidence = 1 / 2 \<rparr>) # tracked)))"

text \<open>
  Lines 110 to 116: with no existing track every detection is registered, and the
  returned dict takes the index \<open>i\<close> of \<open>enumerate\<close> as its key.
\<close>

fun register_all ::
  "'kf kalman_ops \<Rightarrow> 'kf kalman_tracker \<Rightarrow> nat \<Rightarrow> tracked_object list
     \<Rightarrow> (nat \<times> tracked_object) list \<Rightarrow> (nat \<times> tracked_object) list \<times> 'kf kalman_tracker" where
  "register_all K s i [] tracked = (tracked, s)"
| "register_all K s i (det # dets) tracked =
     register_all K (register K s (centroid det)) (i + 1) dets (dict_set tracked i det)"

text \<open>
  \<open>update(detections)\<close>.  The branch for detections with existing tracks (lines 117
  to 206) matches them through \<open>scipy\<close>'s distance matrix, \<open>numpy\<close>'s \<open>argsort\<close>,
  the iteration order of Python sets and the Kalman correction; it is not part of
  this model, which answers \<open>Needs_association\<close> there and leaves the tracker as
  it is.
\<close>

datatype 'a update_result = Tracked 'a | Needs_association

definition tracker_update ::
  "'kf kalman_ops \<Rightarrow> 'kf kalman_tracker \<Rightarrow> detection list
     \<Rightarrow> (nat \<times> tracked_object) list update_result \<times> 'kf kalman_tracker" where
  "tracker_update K s detections =
     (let detection_list = map detection_entry detections
      in if length detection_list = 0 then
           let s1 = mark_disappeared s (map fst (disappeared s))
           in (case predict_all K (objects s1) of
                 (objs', tracked) \<Rightarrow> (Tracked tracked, s1 \<lparr> objects := objs' \<rparr>))
         else if length (objects s) = 0 then
           (case register_all K s 0 detection_list [] of
              (tracked, s') \<Rightarrow> (Tracked tracked, s'))
         else (Needs_association, s))"

text \<open>
  A concrete run, used to run the model: a filter whose prediction is the point it
  holds, the default tracker, one detection, and a number of frames without detections.
\<close>

definition static_filter :: "(real \<times> real) kalman_ops" where
  "static_filter = \<lparr> create_kalman_filter = (0, 0), kf_predict = (\<lambda>p. (p, p)) \<rparr>"

definition detection_a :: detection where
  "detection_a = \<lparr> det_bbox = (100, 100, 200, 200), det_confidence = 9 / 10 \<rparr>"

definition detection_b :: detection where
  "detection_b = \<lparr> det_bbox = (600, 300, 700, 400), det_confidence = 8 / 10 \<rparr>"

definition tracker_seen_one :: "(real \<times> real) kalman_tracker" where
  "tracker_seen_one = snd (tracker_update static_filter (init_tracker 60 100) [detection_a])"

fun empty_frames ::
  "nat \<Rightarrow> (real \<times> real) kalman_tracker \<Rightarrow> (real \<times> real) kalman_tracker" where
  "empty_frames 0 s = s"
| "empty_frames (Suc n) s = empty_frames n (snd (tracker_update static_filter s []))"

definition tracker_lost_one :: "(real \<times> real) kalman_tracker" where
  "tracker_lost_one = empty_frames 61 tracker_seen_one"

section \<open>Properties of the mission state machine\<close>

lemma process_command_result:
  "fst (process_command mc ci now) = spec_guard (cmd_type ci) (current_state mc)"
  by (cases "cmd_type ci") (simp_all add: process_command_def Let_def)

lemma process_command_rejected:
  assumes "\<not> spec_guard (cmd_type ci) (current_state mc)"
  shows "process_command mc ci now = (False, mc)"
  using assms by (cases "cmd_type ci") (simp_all add: process_command_def Let_def)

lemma process_command_lock_tracking:
  assumes "cmd_type ci = QR_LOCK" and "current_state mc = TRACKING"
  shows "fst (process_command mc ci now) \<and> current_state (snd (process_command mc ci now)) = LOCKING"
  using assms by (simp add: process_command_def update_state_def Let_def)

text \<open>
  Claim C1.  For every controller state and every command, \<open>process_command\<close> reports
  success exactly when the guard of the command holds in the current state; when the
  guard is not met it returns failure and the whole controller (state, previous state,
  timestamp, mission data, history) is unchanged.  In particular LOCK in SEARCHING is
  rejected without any change, and LOCK in TRACKING succeeds and moves to LOCKING.
\<close>

theorem mission_guard_enforcement:
  "fst (process_command mc ci now) = spec_guard (cmd_type ci) (current_state mc)
   \<and> (\<not> spec_guard (cmd_type ci) (current_state mc) \<longrightarrow> process_command mc ci now = (False, mc))
   \<and> (cmd_type ci = QR_LOCK \<and> current_state mc = SEARCHING \<longrightarrow>
        process_command mc ci now = (False, mc))
   \<and> (cmd_type ci = QR_LOCK \<and> current_state mc = TRACKING \<longrightarrow>
        fst (process_command mc ci now)
        \<and> current_state (snd (process_command mc ci now)) = LOCKING)"
proof -
  have a: "fst (process_command mc ci now) = spec_guard (cmd_type ci) (current_state mc)"
    by (rule process_command_result)
  have b: "\<not> spec_guard (cmd_type ci) (current_state mc) \<longrightarrow> process_command mc ci now = (False, mc)"
    using process_command_rejected by blast
  have c: "cmd_type ci = QR_LOCK \<and> current_state mc = SEARCHING \<longrightarrow>
        process_command mc ci now = (False, mc)"
    using process_command_rejected [of ci mc now] by auto
  have d: "cmd_type ci = QR_LOCK \<and> current_state mc = TRACKING \<longrightarrow>
        fst (process_command mc ci now)
        \<and> current_state (snd (process_command mc ci now)) = LOCKING"
    using process_command_lock_tracking by blast
  from a b c d show ?thesis by blast
qed

theorem mission_guard_enforcement_witness:
  "\<not> spec_guard QR_LOCK SEARCHING
   \<and> process_command (init_mission_controller 0 \<lparr> current_state := SEARCHING \<rparr>) lock_command 10
       = (False, init_mission_controller 0 \<lparr> current_state := SEARCHING \<rparr>)
   \<and> spec_guard QR_LOCK TRACKING
   \<and> fst (process_command (init_mission_controller 0 \<lparr> current_state := TRACKING \<rparr>) lock_command 10)
   \<and> current_state (snd (process_command
         (init_mission_controller 0 \<lparr> current_state := TRACKING \<rparr>) lock_command 10)) = LOCKING"
  using mission_guard_enforcement
          [of "init_mission_controller 0 \<lparr> current_state := SEARCHING \<rparr>" lock_command 10]
        mission_guard_enforcement
          [of "init_mission_controller 0 \<lparr> current_state := TRACKING \<rparr>" lock_command 10]
  by (simp add: lock_command_def init_mission_controller_def)

section \<open>Properties of the QR command processor\<close>

lemma QRCommand_of_value_value [simp]:
  "QRCommand_of_value (JStr (QRCommand_value c)) = Some c"
  by (cases c) (simp_all add: QRCommand_of_value_def)

lemma cooldown_drops:
  assumes "dict_get data ''command'' = Some (JStr (QRCommand_value c))"
    and "last_command qr = Some c"
    and "last_command_time qr = Some t_prev"
    and "t_prev \<noteq> 0"
    and "now - t_prev < command_cooldown qr"
  shows "process_qr_data qr (Some (JObj data)) now = (Inr None, qr)"
  using assms by (simp add: process_qr_data_def process_qr_object_def time_truthy_def)

lemma accepted_sets_last:
  assumes "process_qr_data qr loaded now = (Inr (Some info), qr')"
  shows "last_command qr' = Some (cmd_type info) \<and> last_command_time qr' = Some now"
  using assms
  by (auto simp: process_qr_data_def process_qr_object_def Let_def
           split: option.splits json.splits if_splits)

text \<open>
  Two identical commands half a second apart, with nothing accepted between them:
  for every payload object that carries command \<open>c\<close>, whatever its parameters, the
  first is accepted unless it is itself in cooldown, and the second yields no command
  and leaves the processor as the first left it.
\<close>

lemma identical_commands_half_second_apart:
  assumes cmd: "dict_get data ''command'' = Some (JStr (QRCommand_value c))"
    and t: "t \<noteq> 0" and cd: "command_cooldown qr = 2"
    and free: "\<not> (last_command qr = Some c \<and> time_truthy (last_command_time qr)
               \<and> t - the (last_command_time qr) < command_cooldown qr)"
  shows "\<exists>info qr1. process_qr_data qr (Some (JObj data)) t = (Inr (Some info), qr1)
           \<and> cmd_type info = c \<and> timestamp info = t
           \<and> process_qr_data qr1 (Some (JObj data)) (t + 1 / 2) = (Inr None, qr1)"
proof -
  define info where "info = \<lparr> cmd_type = c, timestamp = t, raw_data = data,
                               parameters = (case dict_get data ''parameters'' of
                                               None \<Rightarrow> JObj [] | Some p \<Rightarrow> p) \<rparr>"
  define qr1 where "qr1 = qr \<lparr> last_command := Some c, last_command_time := Some t,
                      command_history :=
                        (if length (command_history qr @ [info]) > 50
                         then tl (command_history qr @ [info])
                         else command_history qr @ [info]) \<rparr>"
  have first: "process_qr_data qr (Some (JObj data)) t = (Inr (Some info), qr1)"
    using cmd free
    by (auto simp: process_qr_data_def process_qr_object_def Let_def info_def qr1_def)
  have "t + 1 / 2 - t < command_cooldown qr1" using cd by (simp add: qr1_def)
  then have second: "process_qr_data qr1 (Some (JObj data)) (t + 1 / 2) = (Inr None, qr1)"
    by (intro cooldown_drops [where c = c and t_prev = t])
       (simp_all add: cmd t qr1_def)
  from first second show ?thesis
    by (intro exI [of _ info] exI [of _ qr1]) (simp add: info_def)
qed

lemmas qr_run_defs =
  process_qr_data_def process_qr_object_def kamikaze_payload_def
  escape_payload_def create_qr_command_def dict_get_def QRCommand_of_value_def
  init_qr_processor_def qr_after_kamikaze_def qr_after_kamikaze_escape_def
  qr_after_kamikaze_escape_kamikaze_def time_truthy_def Let_def

text \<open>
  Claim C6 at a concrete sequence of payloads.  The processor keeps one remembered
  command, the last accepted one, so the cooldown holds only against that one.
  KAMIKAZE is accepted at 100 and ESCAPE at 100.5.  KAMIKAZE at 101 arrives one
  second after the previous acceptance of KAMIKAZE, inside the cooldown of two
  seconds, and is accepted; ESCAPE at 101.5 arrives one second after the previous
  acceptance of ESCAPE and is accepted too.  Without the ESCAPE in between, the
  second KAMIKAZE is dropped.
\<close>

theorem cooldown_defeated_by_alternating_commands:
  "command_cooldown init_qr_processor = 2
   \<and> fst (process_qr_data init_qr_processor (Some kamikaze_payload) 100)
     = Inr (Some \<lparr> cmd_type = QR_KAMIKAZE, timestamp = 100,
                    raw_data = [(''command'', JStr ''KAMIKAZE''),
                                (''parameters'', JObj [(''target_id'', JNum 3)])],
                    parameters = JObj [(''target_id'', JNum 3)] \<rparr>)
   \<and> fst (process_qr_data qr_after_kamikaze (Some escape_payload) (1005 / 10))
     = Inr (Some \<lparr> cmd_type = QR_ESCAPE, timestamp = 1005 / 10,
                    raw_data = [(''command'', JStr ''ESCAPE''),
                                (''parameters'', JObj [(''direction'', JStr ''WEST'')])],
                    parameters = JObj [(''direction'', JStr ''WEST'')] \<rparr>)
   \<and> fst (process_qr_data qr_after_kamikaze_escape (Some kamikaze_payload) 101)
     = Inr (Some \<lparr> cmd_type = QR_KAMIKAZE, timestamp = 101,
                    raw_data = [(''command'', JStr ''KAMIKAZE''),
                                (''parameters'', JObj [(''target_id'', JNum 3)])],
                    parameters = JObj [(''target_id'', JNum 3)] \<rparr>)
   \<and> fst (process_qr_data qr_after_kamikaze_escape_kamikaze (Some escape_payload) (1015 / 10))
     = Inr (Some \<lparr> cmd_type = QR_ESCAPE, timestamp = 1015 / 10,
                    raw_data = [(''command'', JStr ''ESCAPE''),
                                (''parameters'', JObj [(''direction'', JStr ''WEST'')])],
                    parameters = JObj [(''direction'', JStr ''WEST'')] \<rparr>)
   \<and> fst (process_qr_data qr_after_kamikaze (Some kamikaze_payload) 101) = Inr None"
  by (simp add: qr_run_defs)

section \<open>Properties of the mission priority manager\<close>

lemmas manager_run_defs =
  manager_scan_current_def manager_update_def create_mission_def init_mission_manager_def
  get_highest_priority_mission_def max_by_def update_status_def update_mission_status_def
  dict_get_def dict_del_def interrupted_missions_def Let_def

lemma archive_on_completed_or_failed:
  assumes "dict_get (active_missions mm) mid = Some r"
    and "new_status = COMPLETED \<or> new_status = FAILED"
  shows "mission_history (update_mission_status mm mid new_status now) = mission_history mm @ [r]"
    and "active_missions (update_mission_status mm mid new_status now)
           = dict_del (active_missions mm) mid"
    and "current_mission mm = Some c \<Longrightarrow> mission_id (objs mm c) = mid \<Longrightarrow> current_mission (update_mission_status mm mid new_status now) = None"
  using assms by (auto simp: update_mission_status_def update_status_def Let_def)

text \<open>
  Claim C2 at a concrete manager.  The SCAN mission \<open>m-1\<close> is in the active set and is
  the current mission.  \<open>update_mission_status\<close> with INTERRUPTED sets the status and
  the completion time of the mission, but leaves it in the active set, adds nothing
  to the history and keeps the current-mission pointer, so that the statistics count
  no interrupted mission.  With COMPLETED the same call archives the mission and
  clears the pointer.
\<close>

theorem interrupted_not_archived:
  "dict_get (active_missions manager_scan_current) ''m-1'' = Some 0
   \<and> current_mission manager_scan_current = Some 0
   \<and> active_missions (update_mission_status manager_scan_current ''m-1'' INTERRUPTED 5)
       = [(''m-1'', 0)]
   \<and> mission_history (update_mission_status manager_scan_current ''m-1'' INTERRUPTED 5) = []
   \<and> current_mission (update_mission_status manager_scan_current ''m-1'' INTERRUPTED 5) = Some 0
   \<and> status (objs (update_mission_status manager_scan_current ''m-1'' INTERRUPTED 5) 0) = INTERRUPTED
   \<and> completion_time (objs (update_mission_status manager_scan_current ''m-1'' INTERRUPTED 5) 0) = Some 5
   \<and> interrupted_missions (update_mission_status manager_scan_current ''m-1'' INTERRUPTED 5) = 0
   \<and> active_missions (update_mission_status manager_scan_current ''m-1'' COMPLETED 5) = []
   \<and> mission_history (update_mission_status manager_scan_current ''m-1'' COMPLETED 5) = [0]
   \<and> current_mission (update_mission_status manager_scan_current ''m-1'' COMPLETED 5) = None"
  by (simp add: manager_run_defs)

section \<open>Properties of the target lock evaluator\<close>

lemma assign_uav_fields [simp]:
  "lock_zone (assign_uav s i t) = lock_zone s"
  "required_lock_time (assign_uav s i t) = required_lock_time s"
  "lock_hysteresis (assign_uav s i t) = lock_hysteresis s"
  "lock_start_time (assign_uav s i t) = lock_start_time s"
  "is_locked (assign_uav s i t) = is_locked s"
  "current_target_id (assign_uav s i t) = current_target_id s"
  "lock_duration (assign_uav s i t) = lock_duration s"
  by (simp_all add: assign_uav_def Let_def)

lemma update_lock_status_fields [simp]:
  "lock_zone (update_lock_status s i z clk) = lock_zone s"
  "required_lock_time (update_lock_status s i z clk) = required_lock_time s"
  "uav_counter (update_lock_status s i z clk) = uav_counter s"
  by (simp_all add: update_lock_status_def reset_lock_def Let_def)

lemma is_point_in_lock_zone_cong:
  "lock_zone s = lock_zone s' \<Longrightarrow> is_point_in_lock_zone s p = is_point_in_lock_zone s' p"
  by (simp add: is_point_in_lock_zone_def)

lemma lock_update_fields [simp]:
  "lock_zone (snd (lock_update s tos clk)) = lock_zone s"
  "required_lock_time (snd (lock_update s tos clk)) = required_lock_time s"
  by (simp_all add: lock_update_def reset_lock_def Let_def split: list.splits)

lemma frame_in_lock_zone_cong:
  "lock_zone s = lock_zone s' \<Longrightarrow> frame_in_lock_zone s f = frame_in_lock_zone s' f"
  by (simp add: frame_in_lock_zone_def is_point_in_lock_zone_def split: list.splits prod.splits)

lemma lock_run_snoc:
  "lock_run s (fs @ [f]) = snd (lock_update (lock_run s fs) (fst f) (snd f))"
  by (simp add: lock_run_def)

lemma lock_run_fields [simp]:
  "lock_zone (lock_run s fs) = lock_zone s"
  "required_lock_time (lock_run s fs) = required_lock_time s"
  by (induction fs rule: rev_induct) (simp_all add: lock_run_snoc, simp_all add: lock_run_def)

text \<open>One update with the centroid inside the lock zone.\<close>

lemma in_zone_step:
  assumes "frame_in_lock_zone s f"
  defines "s' \<equiv> snd (lock_update s (fst f) (snd f))"
  shows "lock_hysteresis s' = min (lock_hysteresis s + 1) 5"
    and "lock_hysteresis s + 1 < 2 \<Longrightarrow>
           lock_start_time s' = lock_start_time s \<and> is_locked s' = is_locked s"
    and "lock_hysteresis s + 1 \<ge> 2 \<Longrightarrow>
           lock_start_time s' =
             (if time_truthy (lock_start_time s) then lock_start_time s
              else Some (t_lock_start (snd f)))
           \<and> is_locked s' =
               (t_duration (snd f) - the (lock_start_time s') \<ge> required_lock_time s)"
  using assms
  by (auto simp: frame_in_lock_zone_def lock_update_def update_lock_status_def Let_def
        is_point_in_lock_zone_cong [of "assign_uav s i t" s for i t]
      split: list.splits)

lemma in_zone_run:
  fixes h0 :: int
  assumes h0: "lock_hysteresis s = h0" and le: "h0 \<le> 1"
    and st0: "lock_start_time s = None" and nl0: "\<not> is_locked s"
    and fr: "\<forall>f \<in> set fs. frame_in_lock_zone s f \<and> t_lock_start (snd f) \<noteq> 0"
  defines "n0 \<equiv> nat (2 - h0)"
  shows "lock_hysteresis (lock_run s fs) = min (h0 + int (length fs)) 5
     \<and> (length fs < n0 \<longrightarrow>
          lock_start_time (lock_run s fs) = None \<and> \<not> is_locked (lock_run s fs))
     \<and> (n0 \<le> length fs \<longrightarrow>
          lock_start_time (lock_run s fs) = Some (t_lock_start (snd (fs ! (n0 - 1))))
          \<and> is_locked (lock_run s fs)
              = (required_lock_time s
                   \<le> t_duration (snd (last fs)) - t_lock_start (snd (fs ! (n0 - 1)))))"
  using fr
proof (induction fs rule: rev_induct)
  case Nil
  show ?case using h0 le st0 nl0 by (simp add: lock_run_def n0_def)
next
  case (snoc f fs)
  define s1 where "s1 = lock_run s fs"
  define s2 where "s2 = snd (lock_update s1 (fst f) (snd f))"
  have run: "lock_run s (fs @ [f]) = s2"
    by (simp add: lock_run_snoc s1_def s2_def)
  from snoc.prems have inf: "frame_in_lock_zone s f" and tf: "t_lock_start (snd f) \<noteq> 0"
    and prev: "\<forall>g \<in> set fs. frame_in_lock_zone s g \<and> t_lock_start (snd g) \<noteq> 0"
    by simp_all
  have in1: "frame_in_lock_zone s1 f"
    using inf frame_in_lock_zone_cong [of s1 s f] by (simp add: s1_def)
  note ih = snoc.IH [OF prev, folded s1_def]
  from ih have hs1: "lock_hysteresis s1 = min (h0 + int (length fs)) 5" by simp
  have hyst: "lock_hysteresis s2 = min (lock_hysteresis s1 + 1) 5"
    unfolding s2_def by (rule in_zone_step(1) [OF in1])
  have hs2: "lock_hysteresis s2 = min (h0 + int (length (fs @ [f]))) 5"
    using hyst hs1 by simp
  have req: "required_lock_time s1 = required_lock_time s"
    by (simp add: s1_def)
  have n0_pos: "1 \<le> n0" using le by (simp add: n0_def)
  consider (before) "Suc (length fs) < n0" | (reach) "Suc (length fs) = n0"
    | (after) "n0 \<le> length fs"
    by linarith
  then show ?case
  proof cases
    case before
    with ih have n1: "lock_start_time s1 = None" and l1: "\<not> is_locked s1"
      by simp_all
    from before have "lock_hysteresis s1 + 1 < 2"
      using hs1 by (simp add: n0_def)
    from in_zone_step(2) [OF in1 this] n1 l1
    have "lock_start_time s2 = None" and "\<not> is_locked s2"
      unfolding s2_def by simp_all
    with hs2 before show ?thesis
      unfolding run by simp
  next
    case reach
    with ih have n1: "lock_start_time s1 = None"
      by simp
    from reach have h1: "lock_hysteresis s1 + 1 \<ge> 2"
      using hs1 le by (simp add: n0_def)
    have nth: "(fs @ [f]) ! (n0 - 1) = f" using reach by (auto simp: nth_append)
    from in_zone_step(3) [OF in1 h1] n1
    have "lock_start_time s2 = Some (t_lock_start (snd f))"
      and "is_locked s2 = (required_lock_time s \<le> t_duration (snd f) - t_lock_start (snd f))"
      unfolding s2_def by (simp_all add: time_truthy_def req)
    with hs2 reach nth show ?thesis
      unfolding run by simp
  next
    case after
    with ih have n1: "lock_start_time s1 = Some (t_lock_start (snd (fs ! (n0 - 1))))"
      by simp
    from after have h1: "lock_hysteresis s1 + 1 \<ge> 2"
      using hs1 by (simp add: n0_def)
    have lt: "n0 - 1 < length fs" using after n0_pos by simp
    then have nth: "(fs @ [f]) ! (n0 - 1) = fs ! (n0 - 1)" by (simp add: nth_append)
    have "fs ! (n0 - 1) \<in> set fs" using lt by simp
    with prev have "t_lock_start (snd (fs ! (n0 - 1))) \<noteq> 0" by blast
    with in_zone_step(3) [OF in1 h1] n1
    have "lock_start_time s2 = Some (t_lock_start (snd (fs ! (n0 - 1))))"
      and "is_locked s2
            = (required_lock_time s \<le> t_duration (snd f) - t_lock_start (snd (fs ! (n0 - 1))))"
      unfolding s2_def by (simp_all add: time_truthy_def req)
    with hs2 after nth show ?thesis
      unfolding run by auto
  qed
qed

text \<open>
  Claim C3.  Start from an evaluator whose lock timer is not running (no start time,
  not locked) and whose hysteresis counter is \<open>h0 \<le> 1\<close>: \<open>0\<close> after construction,
  \<open>-3\<close> after a reset.  Every frame has the tracked object's centroid inside the
  lock zone, and the clock readings are nonzero.  The counter reaches 2 on update
  number \<open>n0 = 2 - h0\<close>.  After \<open>k\<close> updates the start time is unset when \<open>k < n0\<close>
  and is the reading taken on update \<open>n0\<close> from then on, and \<open>is_locked\<close> holds
  exactly when \<open>k \<ge> n0\<close> and the time read on update \<open>k\<close> is at least
  \<open>required_lock_time\<close> after that start.
\<close>

theorem lock_timing:
  fixes h0 :: int
  assumes "lock_hysteresis s = h0" and "h0 \<le> 1"
    and "lock_start_time s = None" and "\<not> is_locked s"
    and "\<forall>f \<in> set frames. frame_in_lock_zone s f \<and> t_lock_start (snd f) \<noteq> 0"
    and "k \<le> length frames"
  shows "lock_hysteresis (lock_run s (take k frames)) = min (h0 + int k) 5
     \<and> lock_start_time (lock_run s (take k frames))
         = (if k < nat (2 - h0) then None
            else Some (t_lock_start (snd (frames ! (nat (2 - h0) - 1)))))
     \<and> is_locked (lock_run s (take k frames))
         = (nat (2 - h0) \<le> k
            \<and> required_lock_time s
                \<le> t_duration (snd (frames ! (k - 1)))
                    - t_lock_start (snd (frames ! (nat (2 - h0) - 1))))"
proof -
  have sub: "\<forall>f \<in> set (take k frames). frame_in_lock_zone s f \<and> t_lock_start (snd f) \<noteq> 0"
    using assms(5) by (meson in_set_takeD)
  have len: "length (take k frames) = k" using assms(6) by simp
  note inv = in_zone_run [OF assms(1-4) sub, unfolded len]
  have pos: "1 \<le> nat (2 - h0)" using assms(2) by simp
  show ?thesis
  proof (cases "k < nat (2 - h0)")
    case True
    with inv show ?thesis by simp
  next
    case False
    then have ge: "nat (2 - h0) \<le> k" by simp
    then have k1: "1 \<le> k" using pos by linarith
    have "take k frames ! (nat (2 - h0) - 1) = frames ! (nat (2 - h0) - 1)"
      using ge pos by simp
    moreover have "last (take k frames) = frames ! (k - 1)"
    proof -
      have ne: "take k frames \<noteq> []" using k1 assms(6) by auto
      have "last (take k frames) = take k frames ! (k - 1)"
        using last_conv_nth [OF ne] len by simp
      also have "\<dots> = frames ! (k - 1)" using k1 by simp
      finally show ?thesis .
    qed
    ultimately show ?thesis using inv ge by simp
  qed
qed

lemmas lock_run_defs =
  default_lock_system_def init_lock_system_def py_int_def timing_frames_def frame_at_def
  empty_frame_at_def centre_object_def corner_object_def frame_in_lock_zone_def
  is_point_in_lock_zone_def lock_run_def lock_update_def assign_uav_def
  update_lock_status_def reset_lock_def get_lock_status_def time_truthy_def dict_get_def
  Let_def

theorem lock_timing_witness:
  "lock_hysteresis default_lock_system = 0
   \<and> lock_start_time default_lock_system = None
   \<and> \<not> is_locked default_lock_system
   \<and> frame_in_lock_zone default_lock_system (frame_at 0 centre_object 1000)
   \<and> lock_start_time (lock_run default_lock_system (take 1 timing_frames)) = None
   \<and> lock_start_time (lock_run default_lock_system (take 3 timing_frames)) = Some 1001
   \<and> \<not> is_locked (lock_run default_lock_system (take 3 timing_frames))
   \<and> lock_start_time (lock_run default_lock_system (take 4 timing_frames)) = Some 1001
   \<and> is_locked (lock_run default_lock_system (take 4 timing_frames))"
  using lock_timing [of default_lock_system 0 timing_frames 1]
        lock_timing [of default_lock_system 0 timing_frames 3]
        lock_timing [of default_lock_system 0 timing_frames 4]
  by (simp add: lock_run_defs)

lemma fmt_03d_one [simp]: "fmt_03d (Suc 0) = ''001''" "fmt_03d 1 = ''001''"
  by (simp_all add: fmt_03d_def decimal.simps [of "Suc 0"] decimal.simps [of 1] numeral_2_eq_2)

lemma reset_lock_frame:
  "tracked_uavs (reset_lock s) = tracked_uavs s \<and> uav_counter (reset_lock s) = uav_counter s
   \<and> lock_hysteresis (reset_lock s) = lock_hysteresis s"
  by (simp add: reset_lock_def)

lemma reset_lock_clears:
  "current_target_id (reset_lock s) = None \<and> lock_start_time (reset_lock s) = None
   \<and> \<not> is_locked (reset_lock s) \<and> lock_duration (reset_lock s) = 0
   \<and> lock_duration_elapsed (reset_lock s) = 0"
  by (simp add: reset_lock_def)

lemma update_lock_status_in_zone_hysteresis:
  "lock_hysteresis (update_lock_status s i True clk) = min (lock_hysteresis s + 1) 5"
  by (simp add: update_lock_status_def Let_def)

lemma update_lock_status_out_of_zone:
  "update_lock_status s i False clk =
     (if lock_hysteresis s - 1 \<le> - 3
      then reset_lock (s \<lparr> lock_hysteresis := max (lock_hysteresis s - 1) (- 3) \<rparr>)
      else s \<lparr> lock_hysteresis := max (lock_hysteresis s - 1) (- 3) \<rparr>)"
  by (simp add: update_lock_status_def Let_def)

lemma update_lock_status_floor:
  assumes lo: "- 3 \<le> lock_hysteresis s"
    and fl: "lock_hysteresis (update_lock_status s i z clk) \<le> - 3"
  shows "update_lock_status s i z clk = reset_lock (s \<lparr> lock_hysteresis := - 3 \<rparr>)"
proof (cases z)
  case True
  with fl have "min (lock_hysteresis s + 1) 5 \<le> - 3"
    by (simp add: update_lock_status_in_zone_hysteresis)
  with lo show ?thesis by simp
next
  case False
  show ?thesis
  proof (cases "lock_hysteresis s - 1 \<le> - 3")
    case True
    then have "max (lock_hysteresis s - 1) (- 3) = - 3" by simp
    with True False show ?thesis
      by (simp add: update_lock_status_out_of_zone)
  next
    case no: False
    with False have "lock_hysteresis (update_lock_status s i z clk) = lock_hysteresis s - 1"
      by (simp add: update_lock_status_out_of_zone)
    with fl no show ?thesis by simp
  qed
qed

lemma lock_update_empty:
  "snd (lock_update s [] clk) =
     (if lock_hysteresis s - 1 \<le> - 3
      then reset_lock (s \<lparr> lock_hysteresis := max (lock_hysteresis s - 1) (- 3) \<rparr>)
      else s \<lparr> lock_hysteresis := max (lock_hysteresis s - 1) (- 3) \<rparr>)"
  by (simp add: lock_update_def Let_def)

lemma lock_update_track:
  "snd (lock_update s ((i, obj) # rest) clk) =
     update_lock_status (assign_uav s i (t_first_seen clk)) i
       (is_point_in_lock_zone s (centroid obj)) clk"
  by (simp add: lock_update_def Let_def
        is_point_in_lock_zone_cong [of "assign_uav s i (t_first_seen clk)" s])

lemma floor_update_is_reset:
  assumes lo: "- 3 \<le> lock_hysteresis s"
    and fl: "lock_hysteresis (snd (lock_update s tos clk)) \<le> - 3"
  shows "snd (lock_update s tos clk) =
           reset_lock ((case tos of [] \<Rightarrow> s
                        | (i, obj) # rest \<Rightarrow> assign_uav s i (t_first_seen clk))
                       \<lparr> lock_hysteresis := - 3 \<rparr>)"
proof (cases tos)
  case Nil
  show ?thesis
  proof (cases "lock_hysteresis s - 1 \<le> - 3")
    case True
    then have "max (lock_hysteresis s - 1) (- 3) = - 3" by simp
    with True Nil show ?thesis by (simp add: lock_update_empty)
  next
    case False
    with Nil have "lock_hysteresis (snd (lock_update s tos clk)) = lock_hysteresis s - 1"
      by (simp add: lock_update_empty)
    with fl False show ?thesis by simp
  qed
next
  case (Cons a rest)
  obtain i obj where a: "a = (i, obj)" by (cases a)
  have lo': "- 3 \<le> lock_hysteresis (assign_uav s i (t_first_seen clk))"
    using lo by simp
  from fl have "lock_hysteresis (update_lock_status (assign_uav s i (t_first_seen clk)) i
       (is_point_in_lock_zone s (centroid obj)) clk) \<le> - 3"
    by (simp add: Cons a lock_update_track)
  from update_lock_status_floor [OF lo' this]
  show ?thesis by (simp add: Cons a lock_update_track)
qed

lemma hysteresis_bounds:
  assumes "- 3 \<le> lock_hysteresis s" and "lock_hysteresis s \<le> 5"
  shows "- 3 \<le> lock_hysteresis (snd (lock_update s tos clk))
         \<and> lock_hysteresis (snd (lock_update s tos clk)) \<le> 5"
proof (cases tos)
  case Nil
  with assms show ?thesis by (simp add: lock_update_empty reset_lock_def)
next
  case (Cons a rest)
  obtain i obj where a: "a = (i, obj)" by (cases a)
  show ?thesis
  proof (cases "is_point_in_lock_zone s (centroid obj)")
    case True
    with assms show ?thesis
      by (simp add: Cons a lock_update_track update_lock_status_in_zone_hysteresis)
  next
    case False
    with assms show ?thesis
      by (simp add: Cons a lock_update_track update_lock_status_out_of_zone reset_lock_def)
  qed
qed

lemma bump_frames_keeps_identity:
  fixes d :: "(nat \<times> uav_info) list"
  assumes "map_of d j = Some u"
  shows "map_option uav_id
           (map_of (map (\<lambda>kv. if fst kv = i
                       then (fst kv, (snd kv) \<lparr> total_tracked_frames :=
                                        total_tracked_frames (snd kv) + 1 \<rparr>)
                       else kv) d) j) = Some (uav_id u)"
  using assms by (induction d) (auto split: if_splits)

lemma dict_set_other:
  assumes "i \<notin> fst ` set d" and "map_of d j = Some u"
  shows "map_of (dict_set d i v) j = Some u"
  using assms by (induction d) (auto split: if_splits)

lemma assign_uav_keeps_identity:
  assumes "dict_get (tracked_uavs s) j = Some u"
  shows "map_option uav_id (dict_get (tracked_uavs (assign_uav s i t)) j) = Some (uav_id u)"
proof (cases "i \<in> set (map fst (tracked_uavs s))")
  case True
  then have "tracked_uavs (assign_uav s i t)
               = map (\<lambda>kv. if fst kv = i
                       then (fst kv, (snd kv) \<lparr> total_tracked_frames :=
                                        total_tracked_frames (snd kv) + 1 \<rparr>)
                       else kv) (tracked_uavs s)"
    by (simp add: assign_uav_def Let_def)
  with bump_frames_keeps_identity [of "tracked_uavs s" j u i] assms
  show ?thesis by (simp add: dict_get_def)
next
  case False
  define v where "v = \<lparr> uav_id = ''UAV_'' @ fmt_03d (uav_counter s + 1),
                          first_seen = t, total_tracked_frames = 0,
                          total_lock_time = 0 \<rparr>"
  from False have eq: "tracked_uavs (assign_uav s i t)
               = map (\<lambda>kv. if fst kv = i
                       then (fst kv, (snd kv) \<lparr> total_tracked_frames :=
                                        total_tracked_frames (snd kv) + 1 \<rparr>)
                       else kv) (dict_set (tracked_uavs s) i v)"
    by (simp add: assign_uav_def Let_def v_def)
  from False assms have "map_of (dict_set (tracked_uavs s) i v) j = Some u"
    by (intro dict_set_other) (simp_all add: dict_get_def)
  from bump_frames_keeps_identity [OF this, of i]
  show ?thesis by (simp add: eq dict_get_def)
qed

text \<open>
  Claim C4.  The counter never leaves \<open>[-3, 5]\<close>; when an update brings it to the
  floor, through an empty track set or an out-of-zone frame, the evaluator after the
  update is the reset of the evaluator (with the identity of the frame's track
  assigned, when there is a track): target id, start time, duration and lock flag
  are cleared.  The reset itself leaves the identity mapping and the UAV counter
  as they are, an empty track set leaves them untouched, and every identity bound
  before the update is still bound to the same label after it.
\<close>

theorem hysteresis_floor_resets:
  assumes "- 3 \<le> lock_hysteresis s"
    and "lock_hysteresis (snd (lock_update s tos clk)) \<le> - 3"
  shows "current_target_id (snd (lock_update s tos clk)) = None
     \<and> lock_start_time (snd (lock_update s tos clk)) = None
     \<and> lock_duration (snd (lock_update s tos clk)) = 0
     \<and> lock_duration_elapsed (snd (lock_update s tos clk)) = 0
     \<and> \<not> is_locked (snd (lock_update s tos clk))
     \<and> tracked_uavs (reset_lock s) = tracked_uavs s
     \<and> uav_counter (reset_lock s) = uav_counter s
     \<and> tracked_uavs (snd (lock_update s tos clk))
         = (case tos of [] \<Rightarrow> tracked_uavs s
            | (i, obj) # rest \<Rightarrow> tracked_uavs (assign_uav s i (t_first_seen clk)))
     \<and> uav_counter (snd (lock_update s tos clk))
         = (case tos of [] \<Rightarrow> uav_counter s
            | (i, obj) # rest \<Rightarrow> uav_counter (assign_uav s i (t_first_seen clk)))
     \<and> (\<forall>j u. dict_get (tracked_uavs s) j = Some u \<longrightarrow>
           map_option uav_id (dict_get (tracked_uavs (snd (lock_update s tos clk))) j)
             = Some (uav_id u))"
proof -
  note eq = floor_update_is_reset [OF assms]
  have clr: "current_target_id (snd (lock_update s tos clk)) = None
     \<and> lock_start_time (snd (lock_update s tos clk)) = None
     \<and> lock_duration (snd (lock_update s tos clk)) = 0
     \<and> lock_duration_elapsed (snd (lock_update s tos clk)) = 0
     \<and> \<not> is_locked (snd (lock_update s tos clk))"
    unfolding eq using reset_lock_clears by blast
  have tr: "tracked_uavs (snd (lock_update s tos clk))
         = (case tos of [] \<Rightarrow> tracked_uavs s
            | (i, obj) # rest \<Rightarrow> tracked_uavs (assign_uav s i (t_first_seen clk)))"
    unfolding eq by (simp add: reset_lock_def split: list.splits)
  have cnt: "uav_counter (snd (lock_update s tos clk))
         = (case tos of [] \<Rightarrow> uav_counter s
            | (i, obj) # rest \<Rightarrow> uav_counter (assign_uav s i (t_first_seen clk)))"
    unfolding eq by (simp add: reset_lock_def split: list.splits)
  have ids: "\<forall>j u. dict_get (tracked_uavs s) j = Some u \<longrightarrow>
           map_option uav_id (dict_get (tracked_uavs (snd (lock_update s tos clk))) j)
             = Some (uav_id u)"
    unfolding tr using assign_uav_keeps_identity by (auto split: list.splits)
  from clr tr cnt ids reset_lock_frame [of s] show ?thesis by blast
qed


lemma timer_started_state:
  "timer_started i =
     default_lock_system \<lparr> current_target_id := Some i, lock_start_time := Some 1001,
       lock_hysteresis := 2, uav_counter := 1, tracked_uavs := [(i, uav_001)] \<rparr>"
  by (simp add: timer_started_def uav_001_def lock_run_defs)

lemma above_floor_state:
  "above_floor =
     default_lock_system \<lparr> current_target_id := Some 0, lock_start_time := Some 1001,
       lock_hysteresis := - 2, uav_counter := 1, tracked_uavs := [(0, uav_001)] \<rparr>"
  by (simp add: above_floor_def timer_started_state lock_run_def lock_update_empty
        empty_frame_at_def default_lock_system_def init_lock_system_def Let_def)

theorem hysteresis_floor_resets_witness:
  "- 3 \<le> lock_hysteresis above_floor
   \<and> current_target_id above_floor = Some 0
   \<and> lock_start_time above_floor = Some 1001
   \<and> lock_hysteresis (snd (lock_update above_floor [] (snd (empty_frame_at 1006)))) = - 3
   \<and> current_target_id (snd (lock_update above_floor [] (snd (empty_frame_at 1006)))) = None
   \<and> lock_start_time (snd (lock_update above_floor [] (snd (empty_frame_at 1006)))) = None
   \<and> \<not> is_locked (snd (lock_update above_floor [] (snd (empty_frame_at 1006))))
   \<and> tracked_uavs (snd (lock_update above_floor [] (snd (empty_frame_at 1006)))) = [(0, uav_001)]
   \<and> uav_counter (snd (lock_update above_floor [] (snd (empty_frame_at 1006)))) = 1
   \<and> \<not> frame_in_lock_zone above_floor (frame_at 0 corner_object 1006)
   \<and> lock_hysteresis (snd (lock_update above_floor [(0, corner_object)]
          (snd (frame_at 0 corner_object 1006)))) = - 3
   \<and> current_target_id (snd (lock_update above_floor [(0, corner_object)]
          (snd (frame_at 0 corner_object 1006)))) = None
   \<and> lock_start_time (snd (lock_update above_floor [(0, corner_object)]
          (snd (frame_at 0 corner_object 1006)))) = None
   \<and> tracked_uavs (snd (lock_update above_floor [(0, corner_object)]
          (snd (frame_at 0 corner_object 1006))))
       = [(0, uav_001 \<lparr> total_tracked_frames := 3 \<rparr>)]
   \<and> uav_counter (snd (lock_update above_floor [(0, corner_object)]
          (snd (frame_at 0 corner_object 1006)))) = 1"
  using hysteresis_floor_resets [of above_floor "[]" "snd (empty_frame_at 1006)"]
        hysteresis_floor_resets [of above_floor "[(0, corner_object)]"
                                    "snd (frame_at 0 corner_object 1006)"]
  by (simp add: above_floor_state lock_update_empty lock_update_track
        update_lock_status_out_of_zone assign_uav_def reset_lock_def uav_001_def
        frame_in_lock_zone_def frame_at_def corner_object_def is_point_in_lock_zone_def
        default_lock_system_def init_lock_system_def py_int_def Let_def)


section \<open>Properties of the PID controller\<close>

lemma compute_first_call:
  assumes "last_time c = None"
  shows "compute c sp pv ct clock
           = (0, c \<lparr> last_time := Some (case ct of None \<Rightarrow> clock | Some t \<Rightarrow> t),
                     previous_error := sp - pv \<rparr>)"
  using assms by (simp add: compute_def Let_def)

lemma compute_nonpositive_dt:
  assumes "last_time c = Some t_last"
    and "(case ct of None \<Rightarrow> clock | Some t \<Rightarrow> t) - t_last \<le> 0"
  shows "compute c sp pv ct clock = (0, c)"
  using assms by (simp add: compute_def Let_def)

text \<open>
  Claim C8.  A controller just constructed or just reset has no time baseline, and
  the first \<open>compute\<close> on a controller without baseline returns 0 for every
  setpoint and measurement, storing the baseline (and the first error).  A call
  whose time delta to the stored baseline is not positive returns 0 and leaves the
  whole controller, in particular integral, previous error and baseline, unchanged.
\<close>

theorem pid_first_call_and_frozen_clock:
  "last_time (init_pid p i d lo hi) = None
   \<and> last_time (pid_reset c0) = None
   \<and> (last_time c = None \<longrightarrow>
        fst (compute c sp pv ct clock) = 0
        \<and> last_time (snd (compute c sp pv ct clock))
            = Some (case ct of None \<Rightarrow> clock | Some t \<Rightarrow> t)
        \<and> integral (snd (compute c sp pv ct clock)) = integral c)
   \<and> (last_time c = Some t_last \<and> (case ct of None \<Rightarrow> clock | Some t \<Rightarrow> t) - t_last \<le> 0 \<longrightarrow>
        compute c sp pv ct clock = (0, c))"
proof -
  have a: "last_time c = None \<longrightarrow>
        fst (compute c sp pv ct clock) = 0
        \<and> last_time (snd (compute c sp pv ct clock))
            = Some (case ct of None \<Rightarrow> clock | Some t \<Rightarrow> t)
        \<and> integral (snd (compute c sp pv ct clock)) = integral c"
    by (simp add: compute_first_call)
  have b: "last_time c = Some t_last \<and> (case ct of None \<Rightarrow> clock | Some t \<Rightarrow> t) - t_last \<le> 0 \<longrightarrow>
        compute c sp pv ct clock = (0, c)"
    using compute_nonpositive_dt by blast
  from a b show ?thesis by (simp add: init_pid_def pid_reset_def)
qed

lemma pan_pid_state:
  "pan_pid = \<lparr> kp = 2, ki = 1, kd = 1 / 2, min_output = - 30, max_output = 30,
               previous_error = 4, integral = 4, last_time = Some 101 \<rparr>"
  by (simp add: pan_pid_def compute_def init_pid_def Let_def)

theorem pid_first_call_and_frozen_clock_witness:
  "compute (init_pid 2 1 (1 / 2) (- 30) 30) 10 4 (Some 100) 0
     = (0, (init_pid 2 1 (1 / 2) (- 30) 30) \<lparr> last_time := Some 100, previous_error := 6 \<rparr>)
   \<and> compute (pid_reset pan_pid) 500 (- 500) None 102
     = (0, (pid_reset pan_pid) \<lparr> last_time := Some 102, previous_error := 1000 \<rparr>)
   \<and> last_time pan_pid = Some 101
   \<and> integral pan_pid = 4
   \<and> compute pan_pid 10 0 (Some 101) 0 = (0, pan_pid)
   \<and> compute pan_pid 10 0 None 99 = (0, pan_pid)"
  using pid_first_call_and_frozen_clock
          [of 2 1 "1 / 2" "- 30" 30 pan_pid "init_pid 2 1 (1 / 2) (- 30) 30" 10 4 "Some 100" 0]
        pid_first_call_and_frozen_clock
          [of 2 1 "1 / 2" "- 30" 30 pan_pid "pid_reset pan_pid" 500 "- 500" None 102]
        pid_first_call_and_frozen_clock
          [of 2 1 "1 / 2" "- 30" 30 pan_pid pan_pid 10 0 "Some 101" 0 101]
        pid_first_call_and_frozen_clock
          [of 2 1 "1 / 2" "- 30" 30 pan_pid pan_pid 10 0 None 99 101]
  by (simp add: pan_pid_state compute_def init_pid_def pid_reset_def Let_def)

section \<open>Properties of the no-fly-zone accounting\<close>

lemma violated_ids_Cons:
  "fst ` {kv. (kv = (zid, z) \<or> kv \<in> set zs)
              \<and> is_active (snd kv) \<and> is_point_in_zone pos (snd kv)}
     = (if is_active z \<and> is_point_in_zone pos z
        then insert zid (fst ` {kv \<in> set zs. is_active (snd kv) \<and> is_point_in_zone pos (snd kv)})
        else fst ` {kv \<in> set zs. is_active (snd kv) \<and> is_point_in_zone pos (snd kv)})"
  by force

lemma violation_loop_eq:
  "violation_loop rate pos now zs pen viol
     = (map (\<lambda>kv. (fst kv, checked_zone pos now (snd kv))) zs,
        pen + (\<Sum>kv\<leftarrow>zs. accrued_time pos now (snd kv) * rate),
        viol \<union> fst ` {kv \<in> set zs. is_active (snd kv) \<and> is_point_in_zone pos (snd kv)})"
proof (induction zs arbitrary: pen viol)
  case Nil
  show ?case by simp
next
  case (Cons a zs)
  obtain zid z where a: "a = (zid, z)" by (cases a)
  show ?case
  proof (cases "is_active z")
    case False
    then show ?thesis
      by (simp add: a Cons.IH checked_zone_def accrued_time_def violated_ids_Cons)
  next
    case act: True
    show ?thesis
    proof (cases "is_point_in_zone pos z")
      case False
      with act show ?thesis
        by (simp add: a Cons.IH checked_zone_def accrued_time_def violated_ids_Cons)
    next
      case True
      with act show ?thesis
        by (cases "last_violation_check z")
           (simp_all add: a Cons.IH checked_zone_def accrued_time_def Let_def
              violated_ids_Cons algebra_simps)
    qed
  qed
qed

lemma violation_loop_zones:
  "fst (violation_loop rate pos now zs pen viol)
     = map (\<lambda>kv. (fst kv, checked_zone pos now (snd kv))) zs"
  by (simp add: violation_loop_eq)

lemma violation_loop_penalty:
  "fst (snd (violation_loop rate pos now zs pen viol))
     = pen + (\<Sum>kv\<leftarrow>zs. accrued_time pos now (snd kv) * rate)"
  by (simp add: violation_loop_eq)

lemma nfz_update_zones:
  "zones (snd (nfz_update c pos now))
     = map (\<lambda>kv. (fst kv, checked_zone pos now (snd kv))) (zones c)"
  by (simp add: nfz_update_def violation_loop_eq Let_def)

lemma nfz_update_penalty:
  "total_penalty_points (snd (nfz_update c pos now))
     = total_penalty_points c
       + (\<Sum>kv\<leftarrow>zones c. accrued_time pos now (snd kv) * penalty_points_per_second c)"
  by (simp add: nfz_update_def violation_loop_eq Let_def)

lemma nfz_update_config [simp]:
  "max_violation_time (snd (nfz_update c pos now)) = max_violation_time c"
  "penalty_points_per_second (snd (nfz_update c pos now)) = penalty_points_per_second c"
  by (simp_all add: nfz_update_def violation_loop_eq Let_def)

lemma dict_get_map_values:
  "dict_get (map (\<lambda>kv. (fst kv, f (snd kv))) d) k = map_option f (dict_get d k)"
  unfolding dict_get_def by (induction d) auto

lemma nfz_update_lookup:
  "dict_get (zones (snd (nfz_update c pos now))) zid
     = map_option (checked_zone pos now) (dict_get (zones c) zid)"
  by (simp add: nfz_update_zones dict_get_map_values)

lemma max_default_ge_iff:
  assumes "xs \<noteq> []"
  shows "(m \<le> max_default d xs) = (\<exists>x \<in> set xs. m \<le> x)"
proof -
  from assms obtain x rest where xs: "xs = x # rest" by (cases xs) auto
  have "fold max rest x = Max (set (x # rest))"
    by (rule Max.set_eq_fold [symmetric])
  then have "max_default d xs = Max (set xs)"
    by (simp add: max_default_def xs)
  then show ?thesis using assms by (simp add: Max_ge_iff)
qed

lemma nfz_update_emergency:
  assumes "zones c \<noteq> []"
  shows "emergency_landing_required (fst (nfz_update c pos now))
           = (\<exists>kv \<in> set (zones (snd (nfz_update c pos now))).
                 max_violation_time c \<le> total_violation_time (snd kv))"
proof -
  define zs where "zs = zones (snd (nfz_update c pos now))"
  have ne: "map (\<lambda>kv. total_violation_time (snd kv)) zs \<noteq> []"
    using assms by (simp add: zs_def nfz_update_zones)
  have "emergency_landing_required (fst (nfz_update c pos now))
          = (max_violation_time c \<le> max_default 0 (map (\<lambda>kv. total_violation_time (snd kv)) zs))"
    by (simp add: zs_def nfz_update_def violation_loop_eq Let_def)
  also have "\<dots> = (\<exists>x \<in> set (map (\<lambda>kv. total_violation_time (snd kv)) zs).
                       max_violation_time c \<le> x)"
    by (rule max_default_ge_iff [OF ne])
  finally show ?thesis by (simp add: zs_def)
qed

lemma checked_zone_geometry [simp]:
  "is_active (checked_zone pos now z) = is_active z"
  "planar_distance p (checked_zone pos now z) = planar_distance p z"
  "radius (checked_zone pos now z) = radius z"
  by (simp_all add: checked_zone_def planar_distance_def split: option.splits)

lemma checked_zone_inside:
  assumes "is_active z" and "planar_distance pos z < radius z"
  shows "checked_zone pos now z =
           (case last_violation_check z of
              None \<Rightarrow> z \<lparr> last_violation_check := Some now \<rparr>
            | Some t_check \<Rightarrow>
                z \<lparr> total_violation_time := total_violation_time z + (now - t_check),
                    last_violation_check := Some now \<rparr>)"
  using assms by (simp add: checked_zone_def is_point_in_zone_def)

lemma checked_zone_outside:
  assumes "is_active z" and "radius z < planar_distance pos z"
  shows "checked_zone pos now z = z \<lparr> last_violation_check := None \<rparr>"
  using assms by (simp add: checked_zone_def is_point_in_zone_def)

lemma nfz_update_emergency_no_zone:
  assumes "zones c = []"
  shows "emergency_landing_required (fst (nfz_update c pos now)) = (max_violation_time c \<le> 0)"
  using assms by (simp add: nfz_update_def max_default_def Let_def)

text \<open>
  One update, seen from an active zone \<open>z\<close> of the controller, with the penalty
  and the emergency flag of a controller that holds at least that zone.
\<close>

lemma active_zone_accounting:
  assumes "dict_get (zones c) zid = Some z" and "is_active z"
  shows "(planar_distance pos z < radius z \<longrightarrow>
            dict_get (zones (snd (nfz_update c pos now))) zid
              = Some (case last_violation_check z of
                        None \<Rightarrow> z \<lparr> last_violation_check := Some now \<rparr>
                      | Some t_check \<Rightarrow>
                          z \<lparr> total_violation_time := total_violation_time z + (now - t_check),
                              last_violation_check := Some now \<rparr>)
            \<and> accrued_time pos now z
                = (case last_violation_check z of None \<Rightarrow> 0 | Some t_check \<Rightarrow> now - t_check))
     \<and> (radius z < planar_distance pos z \<longrightarrow>
            dict_get (zones (snd (nfz_update c pos now))) zid
              = Some (z \<lparr> last_violation_check := None \<rparr>)
            \<and> accrued_time pos now z = 0)
     \<and> total_penalty_points (snd (nfz_update c pos now))
          = total_penalty_points c
            + (\<Sum>kv\<leftarrow>zones c. accrued_time pos now (snd kv) * penalty_points_per_second c)
     \<and> (radius z < planar_distance p_out z \<and> planar_distance p_in z < radius z
          \<and> planar_distance p_in' z < radius z \<longrightarrow>
            map_option total_violation_time
              (dict_get (zones (snd (nfz_update (snd (nfz_update (snd (nfz_update c
                   p_out t_a)) p_in t_b)) p_in' t_c))) zid)
              = Some (total_violation_time z + (t_c - t_b)))
     \<and> emergency_landing_required (fst (nfz_update c pos now))
          = (\<exists>kv \<in> set (zones (snd (nfz_update c pos now))).
                max_violation_time c \<le> total_violation_time (snd kv))"
proof -
  have ins: "planar_distance pos z < radius z \<longrightarrow>
            dict_get (zones (snd (nfz_update c pos now))) zid
              = Some (case last_violation_check z of
                        None \<Rightarrow> z \<lparr> last_violation_check := Some now \<rparr>
                      | Some t_check \<Rightarrow>
                          z \<lparr> total_violation_time := total_violation_time z + (now - t_check),
                              last_violation_check := Some now \<rparr>)
            \<and> accrued_time pos now z
                = (case last_violation_check z of None \<Rightarrow> 0 | Some t_check \<Rightarrow> now - t_check)"
    using assms
    by (simp add: nfz_update_lookup checked_zone_inside accrued_time_def is_point_in_zone_def)
  have out: "radius z < planar_distance pos z \<longrightarrow>
            dict_get (zones (snd (nfz_update c pos now))) zid
              = Some (z \<lparr> last_violation_check := None \<rparr>)
            \<and> accrued_time pos now z = 0"
    using assms
    by (simp add: nfz_update_lookup checked_zone_outside accrued_time_def is_point_in_zone_def)
  have gap: "radius z < planar_distance p_out z \<and> planar_distance p_in z < radius z
          \<and> planar_distance p_in' z < radius z \<longrightarrow>
            map_option total_violation_time
              (dict_get (zones (snd (nfz_update (snd (nfz_update (snd (nfz_update c
                   p_out t_a)) p_in t_b)) p_in' t_c))) zid)
              = Some (total_violation_time z + (t_c - t_b))"
  proof (intro impI, elim conjE)
    assume o: "radius z < planar_distance p_out z"
      and i1: "planar_distance p_in z < radius z"
      and i2: "planar_distance p_in' z < radius z"
    define z1 where "z1 = checked_zone p_out t_a z"
    define z2 where "z2 = checked_zone p_in t_b z1"
    define z3 where "z3 = checked_zone p_in' t_c z2"
    have e1: "z1 = z \<lparr> last_violation_check := None \<rparr>"
      unfolding z1_def using assms(2) o by (rule checked_zone_outside)
    have a1: "is_active z1" and d1: "planar_distance p_in z1 < radius z1"
      using assms(2) i1 by (simp_all add: z1_def)
    have e2: "z2 = z1 \<lparr> last_violation_check := Some t_b \<rparr>"
      unfolding z2_def using checked_zone_inside [OF a1 d1, of t_b] by (simp add: e1)
    have a2: "is_active z2" and d2: "planar_distance p_in' z2 < radius z2"
      using assms(2) i2 by (simp_all add: z2_def z1_def)
    have e3: "z3 = z2 \<lparr> total_violation_time := total_violation_time z2 + (t_c - t_b),
                         last_violation_check := Some t_c \<rparr>"
      unfolding z3_def using checked_zone_inside [OF a2 d2, of t_c] by (simp add: e2)
    have "dict_get (zones (snd (nfz_update (snd (nfz_update (snd (nfz_update c
                   p_out t_a)) p_in t_b)) p_in' t_c))) zid = Some z3"
      using assms(1) by (simp add: nfz_update_lookup z1_def z2_def z3_def)
    then show "map_option total_violation_time
              (dict_get (zones (snd (nfz_update (snd (nfz_update (snd (nfz_update c
                   p_out t_a)) p_in t_b)) p_in' t_c))) zid)
              = Some (total_violation_time z + (t_c - t_b))"
      by (simp add: e3 e2 e1)
  qed
  have ne: "zones c \<noteq> []" using assms(1) by (auto simp: dict_get_def)
  from ins out gap nfz_update_penalty [of c pos now] nfz_update_emergency [OF ne, of pos now]
  show ?thesis by blast
qed

lemma sqrt_1600: "sqrt 1600 = 40"
  by (rule real_sqrt_unique) simp_all

lemma sqrt_3600: "sqrt 3600 = 60"
  by (rule real_sqrt_unique) simp_all

lemmas nfz_run_defs =
  nfz_added_def nfz_activated_def zone_Z1_def pos_inside_def pos_outside_def
  init_nfz_controller_def add_zone_def activate_zone_def nfz_update_def
  is_point_in_zone_def planar_distance_def max_default_def dict_get_def accrued_time_def
  sqrt_1600 sqrt_3600 Let_def

text \<open>
  Claim C9, for active zones.  Let \<open>z\<close> be an active zone of the controller.  An
  update with the position strictly inside its radius stamps the zone with the time
  of the check and, when an earlier check is stamped, adds the time since that check
  to the zone's total.  An update with the position outside clears the stamp and
  adds nothing, so after leaving and entering again the total grows only by the time
  between the two checks inside.  For every controller the running penalty grows by
  the added times of all zones times the penalty rate.  The emergency flag of the
  report is true exactly when some zone of the controller, active or not, has a
  total that has reached \<open>max_violation_time\<close>; a controller without zones compares
  0 with \<open>max_violation_time\<close>.
\<close>

theorem violation_accounting_active_zones:
  "(dict_get (zones c) zid = Some z \<and> is_active z \<longrightarrow>
      (planar_distance pos z < radius z \<longrightarrow>
            dict_get (zones (snd (nfz_update c pos now))) zid
              = Some (case last_violation_check z of
                        None \<Rightarrow> z \<lparr> last_violation_check := Some now \<rparr>
                      | Some t_check \<Rightarrow>
                          z \<lparr> total_violation_time := total_violation_time z + (now - t_check),
                              last_violation_check := Some now \<rparr>)
            \<and> accrued_time pos now z
                = (case last_violation_check z of None \<Rightarrow> 0 | Some t_check \<Rightarrow> now - t_check))
      \<and> (radius z < planar_distance pos z \<longrightarrow>
            dict_get (zones (snd (nfz_update c pos now))) zid
              = Some (z \<lparr> last_violation_check := None \<rparr>)
            \<and> accrued_time pos now z = 0)
      \<and> (radius z < planar_distance p_out z \<and> planar_distance p_in z < radius z
          \<and> planar_distance p_in' z < radius z \<longrightarrow>
            map_option total_violation_time
              (dict_get (zones (snd (nfz_update (snd (nfz_update (snd (nfz_update c
                   p_out t_a)) p_in t_b)) p_in' t_c))) zid)
              = Some (total_violation_time z + (t_c - t_b))))
   \<and> total_penalty_points (snd (nfz_update c pos now))
        = total_penalty_points c
          + (\<Sum>kv\<leftarrow>zones c. accrued_time pos now (snd kv) * penalty_points_per_second c)
   \<and> (zones c \<noteq> [] \<longrightarrow>
        emergency_landing_required (fst (nfz_update c pos now))
          = (\<exists>kv \<in> set (zones (snd (nfz_update c pos now))).
                max_violation_time c \<le> total_violation_time (snd kv)))
   \<and> (zones c = [] \<longrightarrow>
        emergency_landing_required (fst (nfz_update c pos now)) = (max_violation_time c \<le> 0))"
proof -
  have zone: "dict_get (zones c) zid = Some z \<and> is_active z \<longrightarrow>
      (planar_distance pos z < radius z \<longrightarrow>
            dict_get (zones (snd (nfz_update c pos now))) zid
              = Some (case last_violation_check z of
                        None \<Rightarrow> z \<lparr> last_violation_check := Some now \<rparr>
                      | Some t_check \<Rightarrow>
                          z \<lparr> total_violation_time := total_violation_time z + (now - t_check),
                              last_violation_check := Some now \<rparr>)
            \<and> accrued_time pos now z
                = (case last_violation_check z of None \<Rightarrow> 0 | Some t_check \<Rightarrow> now - t_check))
      \<and> (radius z < planar_distance pos z \<longrightarrow>
            dict_get (zones (snd (nfz_update c pos now))) zid
              = Some (z \<lparr> last_violation_check := None \<rparr>)
            \<and> accrued_time pos now z = 0)
      \<and> (radius z < planar_distance p_out z \<and> planar_distance p_in z < radius z
          \<and> planar_distance p_in' z < radius z \<longrightarrow>
            map_option total_violation_time
              (dict_get (zones (snd (nfz_update (snd (nfz_update (snd (nfz_update c
                   p_out t_a)) p_in t_b)) p_in' t_c))) zid)
              = Some (total_violation_time z + (t_c - t_b)))"
  proof (intro impI, elim conjE)
    assume a: "dict_get (zones c) zid = Some z" and b: "is_active z"
    from active_zone_accounting [OF a b, of pos now p_out p_in p_in' t_a t_b t_c]
    show "(planar_distance pos z < radius z \<longrightarrow>
            dict_get (zones (snd (nfz_update c pos now))) zid
              = Some (case last_violation_check z of
                        None \<Rightarrow> z \<lparr> last_violation_check := Some now \<rparr>
                      | Some t_check \<Rightarrow>
                          z \<lparr> total_violation_time := total_violation_time z + (now - t_check),
                              last_violation_check := Some now \<rparr>)
            \<and> accrued_time pos now z
                = (case last_violation_check z of None \<Rightarrow> 0 | Some t_check \<Rightarrow> now - t_check))
      \<and> (radius z < planar_distance pos z \<longrightarrow>
            dict_get (zones (snd (nfz_update c pos now))) zid
              = Some (z \<lparr> last_violation_check := None \<rparr>)
            \<and> accrued_time pos now z = 0)
      \<and> (radius z < planar_distance p_out z \<and> planar_distance p_in z < radius z
          \<and> planar_distance p_in' z < radius z \<longrightarrow>
            map_option total_violation_time
              (dict_get (zones (snd (nfz_update (snd (nfz_update (snd (nfz_update c
                   p_out t_a)) p_in t_b)) p_in' t_c))) zid)
              = Some (total_violation_time z + (t_c - t_b)))"
      by blast
  qed
  have some: "zones c \<noteq> [] \<longrightarrow>
        emergency_landing_required (fst (nfz_update c pos now))
          = (\<exists>kv \<in> set (zones (snd (nfz_update c pos now))).
                max_violation_time c \<le> total_violation_time (snd kv))"
    using nfz_update_emergency by blast
  have none: "zones c = [] \<longrightarrow>
        emergency_landing_required (fst (nfz_update c pos now)) = (max_violation_time c \<le> 0)"
    using nfz_update_emergency_no_zone by blast
  from zone nfz_update_penalty [of c pos now] some none show ?thesis
    by (intro conjI)
qed

theorem violation_accounting_active_zones_witness:
  "dict_get (zones nfz_activated) ''Z1'' = Some zone_Z1
   \<and> is_active zone_Z1
   \<and> planar_distance pos_inside zone_Z1 < radius zone_Z1
   \<and> radius zone_Z1 < planar_distance pos_outside zone_Z1
   \<and> zones (snd (nfz_update nfz_activated pos_inside 1000))
       = [(''Z1'', zone_Z1 \<lparr> last_violation_check := Some 1000 \<rparr>)]
   \<and> zones (snd (nfz_update (snd (nfz_update nfz_activated pos_inside 1000)) pos_inside 1003))
       = [(''Z1'', zone_Z1 \<lparr> total_violation_time := 3, last_violation_check := Some 1003 \<rparr>)]
   \<and> total_penalty_points
         (snd (nfz_update (snd (nfz_update nfz_activated pos_inside 1000)) pos_inside 1003)) = 15
   \<and> \<not> emergency_landing_required
         (fst (nfz_update (snd (nfz_update nfz_activated pos_inside 1000)) pos_inside 1003))
   \<and> emergency_landing_required
         (fst (nfz_update (snd (nfz_update nfz_activated pos_inside 1000)) pos_inside 1030))
   \<and> map_option total_violation_time
         (dict_get (zones (snd (nfz_update (snd (nfz_update (snd (nfz_update
              (snd (nfz_update nfz_activated pos_inside 1000))
              pos_outside 1010)) pos_inside 1020)) pos_inside 1021))) ''Z1'') = Some 1
   \<and> zones nfz_added \<noteq> []
   \<and> \<not> emergency_landing_required (fst (nfz_update nfz_added pos_inside 1000))
   \<and> zones nfz_no_zone = []
   \<and> \<not> emergency_landing_required (fst (nfz_update nfz_no_zone pos_inside 1000))
   \<and> zones nfz_no_zone_no_limit = []
   \<and> emergency_landing_required (fst (nfz_update nfz_no_zone_no_limit pos_inside 1000))"
  using violation_accounting_active_zones
          [of nfz_activated "''Z1''" zone_Z1 pos_inside 1000 pos_outside pos_inside pos_inside
              1010 1020 1021]
        violation_accounting_active_zones
          [of "snd (nfz_update nfz_activated pos_inside 1000)" "''Z1''"
              "zone_Z1 \<lparr> last_violation_check := Some 1000 \<rparr>" pos_inside 1003
              pos_outside pos_inside pos_inside 1010 1020 1021]
        violation_accounting_active_zones
          [of nfz_added "''Z1''" zone_Z1 pos_inside 1000 pos_outside pos_inside pos_inside
              1010 1020 1021]
        violation_accounting_active_zones
          [of nfz_no_zone "''Z1''" zone_Z1 pos_inside 1000 pos_outside pos_inside pos_inside
              1010 1020 1021]
        violation_accounting_active_zones
          [of nfz_no_zone_no_limit "''Z1''" zone_Z1 pos_inside 1000 pos_outside pos_inside
              pos_inside 1010 1020 1021]
  by (simp add: nfz_run_defs nfz_no_zone_def nfz_no_zone_no_limit_def)

text \<open>
  The claim as stated fails in two places.  For a zone that was added and not
  activated, with the position strictly inside its radius, two updates three seconds
  apart add nothing to the zone's total or to the penalty.  For a controller without
  any zone and with a time limit of 0, the emergency flag is reported although no
  zone has accumulated any time.
\<close>

theorem violation_accounting_counterexample:
  "dict_get (zones nfz_added) ''Z1'' = Some (zone_Z1 \<lparr> activation_time := 900, is_active := False \<rparr>)
   \<and> planar_distance pos_inside (zone_Z1 \<lparr> activation_time := 900, is_active := False \<rparr>) < 50
   \<and> zones (snd (nfz_update (snd (nfz_update nfz_added pos_inside 1000)) pos_inside 1003))
       = [(''Z1'', zone_Z1 \<lparr> activation_time := 900, is_active := False \<rparr>)]
   \<and> total_violation_time (zone_Z1 \<lparr> activation_time := 900, is_active := False \<rparr>) = 0
   \<and> total_penalty_points
         (snd (nfz_update (snd (nfz_update nfz_added pos_inside 1000)) pos_inside 1003)) = 0
   \<and> zones nfz_no_zone_no_limit = []
   \<and> zones (snd (nfz_update nfz_no_zone_no_limit pos_inside 1000)) = []
   \<and> emergency_landing_required (fst (nfz_update nfz_no_zone_no_limit pos_inside 1000))"
  by (simp add: nfz_run_defs nfz_no_zone_no_limit_def)

section \<open>Properties of the maneuver generators\<close>

lemma vnorm_vsub_self [simp]: "vnorm (vsub p p) = 0"
  by (cases p) (simp add: vnorm_def vsub_def)

lemma vnorm_vzero [simp]: "vnorm vzero = 0"
  by (simp add: vnorm_def vzero_def)

lemma vnorm_flat: "vnorm (set_z v 0) = vnorm2 (set_z v 0)"
  by (cases v) (simp add: vnorm_def vnorm2_def set_z_def)

lemma escape_zero_length:
  "calculate_escape_vector c p p rnd_resample rnd_sign now = (Some vzero, c)"
  by (simp add: calculate_escape_vector_def Let_def)

lemma dive_zero_length:
  "calculate_dive_path k p p = Some vzero"
  by (simp add: calculate_dive_path_def Let_def)

text \<open>One zone of the loop with finite accumulators leaves them finite.\<close>

lemma repulsion_loop_finite:
  "\<exists>a i. fst (repulsion_loop m pos zs (Some a0) (Some i0) viol) = Some a
         \<and> fst (snd (repulsion_loop m pos zs (Some a0) (Some i0) viol)) = Some i"
proof (induction zs arbitrary: a0 i0 viol)
  case Nil
  show ?case by (intro exI [of _ a0] exI [of _ i0]) simp
next
  case (Cons kz zs)
  obtain zid z where kz: "kz = (zid, z)" by (cases kz)
  define to_center where "to_center = set_z (vsub (center z) pos) 0"
  define distance where "distance = vnorm2 to_center"
  define ext where "ext = radius z + m"
  show ?case
  proof (cases "is_active z \<and> distance \<le> ext")
    case False
    then show ?thesis
      using Cons.IH [of a0 i0 viol]
      by (auto simp: kz Let_def to_center_def distance_def ext_def)
  next
    case True
    then have act: "is_active z" and le: "distance \<le> ext" by simp_all
    show ?thesis
    proof (cases "distance > 0")
      case False
      then show ?thesis
        using act le Cons.IH [of a0 i0 "if distance \<le> radius z then viol @ [zid] else viol"]
        by (simp add: kz Let_def to_center_def [symmetric] distance_def [symmetric]
              ext_def [symmetric])
    next
      case pos: True
      have n: "vnorm to_center \<noteq> 0"
        using pos vnorm_flat [of "vsub (center z) pos"]
        by (simp add: to_center_def distance_def)
      have e: "ext \<noteq> 0" using pos le by simp
      obtain d where d: "map_option (\<lambda>d. set_z d 0)
                           (vdiv (vscale (- 1) to_center) (vnorm to_center)) = Some d"
        using n by (simp add: vdiv_def)
      obtain s where s: "map_option (\<lambda>q. 1 - q) (sdiv distance ext) = Some s"
        using e by (simp add: sdiv_def)
      show ?thesis
        using act le pos
          Cons.IH [of "vadd a0 (vscale s d)" "i0 + s"
                      "if distance \<le> radius z then viol @ [zid] else viol"]
        by (simp add: kz Let_def to_center_def [symmetric] distance_def [symmetric]
              ext_def [symmetric] d s)
    qed
  qed
qed

lemma avoidance_zero_repulsion:
  assumes "accumulated_repulsion n pos = Some vzero"
  shows "fst (calculate_avoidance_vector n pos vel tgt) = Some vzero"
proof -
  obtain av infl viol where loop:
    "repulsion_loop (safety_margin n) pos (zones n) (Some vzero) (Some 0) [] = (av, infl, viol)"
    by (cases "repulsion_loop (safety_margin n) pos (zones n) (Some vzero) (Some 0) []") auto
  from assms have av: "av = Some vzero"
    by (simp add: accumulated_repulsion_def loop)
  from repulsion_loop_finite [of "safety_margin n" pos "zones n" vzero 0 "[]"]
  obtain i where infl: "infl = Some i"
    by (auto simp: loop)
  have z: "vdiv vzero i = Some vzero" if "i > 0"
    using that by (simp add: vdiv_def vzero_def)
  show ?thesis
    by (cases tgt)
       (auto simp: calculate_avoidance_vector_def loop av infl Let_def vany_def z)
qed

lemma avoidance_finite:
  "\<exists>v. fst (calculate_avoidance_vector n pos vel tgt) = Some v"
proof -
  obtain av infl viol where loop:
    "repulsion_loop (safety_margin n) pos (zones n) (Some vzero) (Some 0) [] = (av, infl, viol)"
    by (cases "repulsion_loop (safety_margin n) pos (zones n) (Some vzero) (Some 0) []") auto
  from repulsion_loop_finite [of "safety_margin n" pos "zones n" vzero 0 "[]"]
  obtain a i where av: "av = Some a" and infl: "infl = Some i"
    by (auto simp: loop)
  obtain a1 where a1: "(if i > 0 then vdiv a i else Some a) = Some a1"
    by (cases "i > 0") (simp_all add: vdiv_def)
  have blend: "(case tgt of
                       None \<Rightarrow> Some a1
                     | Some tp \<Rightarrow>
                         if vany a1 then
                           let to_target = set_z (vsub tp pos) 0;
                               distance_to_target = vnorm2 to_target
                           in if distance_to_target > 0 then
                                map_option
                                  (\<lambda>td. vadd (vscale (1 / 2) a1) (vscale (1 / 2) td))
                                  (vdiv to_target (vnorm to_target))
                              else Some a1
                         else Some a1) \<noteq> None"
  proof (cases tgt)
    case None
    then show ?thesis by (simp del: split_paired_Ex)
  next
    case (Some tp)
    have "vnorm (set_z (vsub tp pos) 0) \<noteq> 0" if "vnorm2 (set_z (vsub tp pos) 0) > 0"
      using that by (simp add: vnorm_flat)
    then show ?thesis
      by (simp add: Some Let_def vdiv_def del: split_paired_Ex)
  qed
  then obtain a2 where a2: "(case tgt of
                       None \<Rightarrow> Some a1
                     | Some tp \<Rightarrow>
                         if vany a1 then
                           let to_target = set_z (vsub tp pos) 0;
                               distance_to_target = vnorm2 to_target
                           in if distance_to_target > 0 then
                                map_option
                                  (\<lambda>td. vadd (vscale (1 / 2) a1) (vscale (1 / 2) td))
                                  (vdiv to_target (vnorm to_target))
                              else Some a1
                         else Some a1) = Some a2"
    by blast
  have "(if vnorm a2 > 0 then vdiv a2 (vnorm a2) else Some a2) \<noteq> None"
    by (simp add: vdiv_def del: split_paired_Ex)
  then obtain a3 where "(if vnorm a2 > 0 then vdiv a2 (vnorm a2) else Some a2) = Some a3"
    by blast
  then show ?thesis
    by (intro exI [of _ a3])
       (simp add: calculate_avoidance_vector_def loop av infl Let_def a1 a2)
qed

text \<open>
  The guarded normalisations.  With own position equal to the threat position the
  escape vector is the zero vector (and the controller is not touched); with own
  position equal to the target position the dive path is the zero vector; when the
  repulsion accumulated over the zones is the zero vector, the avoidance vector is the
  zero vector, with or without a target.  The avoidance computation divides by zero
  on no input.
\<close>

lemma guarded_zero_length_cases:
  "calculate_escape_vector c p p rnd_resample rnd_sign now = (Some vzero, c)
   \<and> calculate_dive_path k q q = Some vzero
   \<and> (accumulated_repulsion n pos = Some vzero \<longrightarrow>
        fst (calculate_avoidance_vector n pos vel tgt) = Some vzero)
   \<and> (\<exists>v. fst (calculate_avoidance_vector n pos vel tgt) = Some v)"
  using escape_zero_length dive_zero_length avoidance_zero_repulsion avoidance_finite
  by blast

lemmas maneuver_run_defs =
  calculate_avoidance_vector_def accumulated_repulsion_def nfz_activated_def nfz_added_def
  init_nfz_controller_def add_zone_def activate_zone_def vzero_def vsub_def vadd_def
  vscale_def vnorm_def vnorm2_def vdiv_def sdiv_def set_z_def vz_def vany_def Let_def

lemma guarded_zero_length_cases_run:
  "calculate_escape_vector default_escape_controller (10, 20, 60) (10, 20, 60) (5 / 100) (3 / 10) 1000
     = (Some (0, 0, 0), default_escape_controller)
   \<and> calculate_dive_path default_kamikaze_controller (5, 5, 80) (5, 5, 80) = Some (0, 0, 0)
   \<and> accumulated_repulsion nfz_activated (0, 0, 10) = Some (0, 0, 0)
   \<and> calculate_avoidance_vector nfz_activated (0, 0, 10) (1, 0, 0) (Some (100, 0, 10))
       = (Some (0, 0, 0), [''Z1''])"
  using guarded_zero_length_cases
          [of default_escape_controller "(10, 20, 60)" "5 / 100" "3 / 10" 1000
              default_kamikaze_controller "(5, 5, 80)" nfz_activated "(0, 0, 10)"
              "(1, 0, 0)" "Some (100, 0, 10)"]
  by (simp add: maneuver_run_defs)

lemma sqrt_100: "sqrt 100 = 10"
  by (rule real_sqrt_unique) simp_all

text \<open>
  Claim C7 at a concrete dive.  The dive path normalises twice.  The first
  normalisation, of the direction to the target, is guarded by \<open>distance > 0\<close>.  The
  second, of the movement vector with its vertical component replaced by
  \<open>- sin(dive_angle)\<close>, has no guard.  With a dive angle of 0 degrees and the target
  ten units straight below, the direction is \<open>(0, 0, -1)\<close>, the movement vector is
  the zero vector, and its normalisation divides by its length 0: the result is not
  the zero vector but a vector that is not finite.  With the default angle of 45
  degrees the same positions give a finite vector.
\<close>

theorem dive_path_final_normalisation_unguarded:
  "vsub (0, 0, 0) (0, 0, 10) = (0, 0, - 10)
   \<and> vnorm (0, 0, - 10) = 10
   \<and> vdiv (0, 0, - 10) 10 = Some (0, 0, - 1)
   \<and> vnorm (0, 0, - sin (0 * pi / 180)) = 0
   \<and> calculate_dive_path (default_kamikaze_controller \<lparr> dive_angle := 0 \<rparr>) (0, 0, 10) (0, 0, 0)
       = None
   \<and> calculate_dive_path (default_kamikaze_controller \<lparr> dive_angle := 0 \<rparr>) (0, 0, 10) (0, 0, 0)
       \<noteq> Some vzero
   \<and> calculate_dive_path default_kamikaze_controller (0, 0, 10) (0, 0, 0) \<noteq> None"
  by (simp add: calculate_dive_path_def default_kamikaze_controller_def vsub_def vnorm_def
        vdiv_def sqrt_100 Let_def sin_45 real_sqrt_eq_zero_cancel_iff flip: power2_eq_square)

section \<open>Properties of the tracker\<close>

lemma dict_set_fresh:
  assumes "k \<notin> fst ` set d"
  shows "dict_set d k v = d @ [(k, v)]"
  using assms by (induction d) auto

lemma register_all_result:
  assumes "\<forall>k \<in> fst ` set (objects s). k < next_object_id s"
    and "\<forall>k \<in> fst ` set (disappeared s). k < next_object_id s"
    and "\<forall>k \<in> fst ` set tracked. k < i"
  shows "register_all K s i dets tracked =
           (tracked @ zip [i ..< i + length dets] dets,
            s \<lparr> objects := objects s
                   @ zip [next_object_id s ..< next_object_id s + length dets]
                       (map (\<lambda>d. (centroid d, create_kalman_filter K)) dets),
                disappeared := disappeared s
                   @ zip [next_object_id s ..< next_object_id s + length dets]
                       (replicate (length dets) 0),
                next_object_id := next_object_id s + length dets \<rparr>)"
  using assms
proof (induction dets arbitrary: s i tracked)
  case Nil
  show ?case by simp
next
  case (Cons d dets)
  define s1 where "s1 = register K s (centroid d)"
  have fo: "next_object_id s \<notin> fst ` set (objects s)"
    and fd: "next_object_id s \<notin> fst ` set (disappeared s)"
    and ft: "i \<notin> fst ` set tracked"
    using Cons.prems by auto
  have s1: "s1 = s \<lparr> objects := objects s @ [(next_object_id s, (centroid d, create_kalman_filter K))],
                      disappeared := disappeared s @ [(next_object_id s, 0)],
                      next_object_id := Suc (next_object_id s) \<rparr>"
    by (simp add: s1_def register_def dict_set_fresh [OF fo] dict_set_fresh [OF fd])
  have p1: "\<forall>k \<in> fst ` set (objects s1). k < next_object_id s1"
    and p2: "\<forall>k \<in> fst ` set (disappeared s1). k < next_object_id s1"
    and p3: "\<forall>k \<in> fst ` set (tracked @ [(i, d)]). k < i + 1"
    using Cons.prems by (auto simp: s1 less_Suc_eq)
  have up1: "[i ..< i + length (d # dets)] = i # [i + 1 ..< i + 1 + length dets]"
    using upt_conv_Cons [of i "i + length (d # dets)"] by (simp del: upt_Suc)
  have up2: "[next_object_id s ..< next_object_id s + length (d # dets)]
               = next_object_id s # [Suc (next_object_id s) ..< Suc (next_object_id s) + length dets]"
    using upt_conv_Cons [of "next_object_id s" "next_object_id s + length (d # dets)"]
    by (simp del: upt_Suc)
  have "register_all K s i (d # dets) tracked
          = register_all K s1 (i + 1) dets (tracked @ [(i, d)])"
    by (simp add: s1_def dict_set_fresh [OF ft])
  also note Cons.IH [OF p1 p2 p3]
  finally show ?case
    unfolding up1 up2 by (simp add: s1)
qed

text \<open>
  The branch without existing tracks, for every tracker that holds no track: the
  returned dict has the keys \<open>0, ..., n - 1\<close>, while the tracks are registered
  under \<open>next_object_id, ..., next_object_id + n - 1\<close>.
\<close>

lemma update_no_objects:
  assumes "objects s = []" and "disappeared s = []" and "detections \<noteq> []"
  shows "fst (tracker_update K s detections)
           = Tracked (zip [0 ..< length detections] (map detection_entry detections))"
    and "map fst (objects (snd (tracker_update K s detections)))
           = [next_object_id s ..< next_object_id s + length detections]"
    and "next_object_id (snd (tracker_update K s detections))
           = next_object_id s + length detections"
  using assms
  by (simp_all add: tracker_update_def Let_def
        register_all_result [of s "[]" 0 K "map detection_entry detections"])

lemmas tracker_run_defs =
  tracker_update_def register_def deregister_def detection_entry_def init_tracker_def
  static_filter_def detection_a_def detection_b_def tracker_seen_one_def
  dict_get_def dict_del_def Let_def

lemma tracker_seen_one_state:
  "tracker_seen_one =
     \<lparr> next_object_id = 1, objects = [(0, ((150, 150), (0, 0)))], disappeared = [(0, 0)],
       max_disappeared = 60, max_distance = 100, min_confidence = 1 / 10 \<rparr>"
  by (simp add: tracker_run_defs)

lemma empty_frame_ages_track:
  assumes "k < 60"
  shows "snd (tracker_update static_filter
           \<lparr> next_object_id = 1, objects = [(0, ((150, 150), (0, 0)))], disappeared = [(0, k)],
             max_disappeared = 60, max_distance = 100, min_confidence = 1 / 10 \<rparr> [])
         = \<lparr> next_object_id = 1, objects = [(0, ((150, 150), (0, 0)))],
             disappeared = [(0, Suc k)],
             max_disappeared = 60, max_distance = 100, min_confidence = 1 / 10 \<rparr>"
  using assms by (simp add: tracker_run_defs)

lemma tracker_lost_one_state:
  "tracker_lost_one =
     \<lparr> next_object_id = 1, objects = [], disappeared = [],
       max_disappeared = 60, max_distance = 100, min_confidence = 1 / 10 \<rparr>"
  unfolding tracker_lost_one_def tracker_seen_one_state
  by (simp add: eval_nat_numeral empty_frame_ages_track tracker_run_defs)

text \<open>
  Claim C5 at a concrete run of the default tracker.  The first detection becomes
  track 0 and is returned under key 0.  After 61 frames without detections the track
  is destroyed and no track exists; the next sequential id is 1.  The next detection
  is registered as track 1, but the returned mapping holds it under key 0, with its
  bounding box and confidence taken verbatim.
\<close>

theorem returned_key_is_index_not_track_id:
  "fst (tracker_update static_filter (init_tracker 60 100) [detection_a])
     = Tracked [(0, \<lparr> centroid = (150, 150), bbox = (100, 100, 200, 200), confidence = 9 / 10 \<rparr>)]
   \<and> map fst (objects tracker_seen_one) = [0]
   \<and> objects tracker_lost_one = []
   \<and> next_object_id tracker_lost_one = 1
   \<and> fst (tracker_update static_filter tracker_lost_one [detection_b])
       = Tracked [(0, \<lparr> centroid = (650, 350), bbox = (600, 300, 700, 400), confidence = 8 / 10 \<rparr>)]
   \<and> map fst (objects (snd (tracker_update static_filter tracker_lost_one [detection_b]))) = [1]
   \<and> next_object_id (snd (tracker_update static_filter tracker_lost_one [detection_b])) = 2"
  by (simp add: tracker_lost_one_state tracker_seen_one_state tracker_run_defs)

end
